theory Spec2Isabelle
  imports Main "HOL-Library.Word"
begin

section \<open>The PSP port of the pthreads-embedded OS abstraction layer\<close>

text \<open>
  The C file implements the primitives of the threading library on the PSP kernel: threads,
  mutexes, semaphores, interrupt-masked atomics and an emulation of thread-local storage.
  The embedding keeps one record for everything the C code can read or write: the kernel's
  objects, the heap, the file's static variables. Every C function becomes a function from
  the state to its result and the next state.
\<close>

subsection \<open>Machine types and constants\<close>

text \<open>
  \<open>SceUID\<close> is a C \<open>int\<close>: kernel error codes are the values with the top bit set, so
  \<open>x < 0\<close> in C is the signed comparison \<open>x <s 0\<close> on a 32-bit word. Pointers are 32 bits
  wide on this target, \<open>NULL\<close> is 0.
\<close>

type_synonym SceUID = "32 word"
type_synonym SceUInt = "32 word"
type_synonym addr = "32 word"

abbreviation NULL :: addr where
  "NULL \<equiv> 0"

text \<open>
  Modelled from the spec: the status codes of the primitives. The enumeration
  \<open>pte_osResult\<close> is declared in pte_generic_osal.h, which is not among the sources; the
  spec lists the five codes the primitives return.
\<close>

datatype pte_osResult =
    PTE_OS_OK
  | PTE_OS_NO_RESOURCES
  | PTE_OS_GENERAL_FAILURE
  | PTE_OS_TIMEOUT
  | PTE_OS_INTERRUPTED

text \<open>
  The kernel's result codes that the C file or the kernel model names, and the run status
  of a stopped thread, with their values in the headers of the PSP SDK (pspkerror.h,
  pspthreadman.h). The proofs use of the error codes that they are negative and differ
  from each other.
\<close>

definition SCE_KERNEL_ERROR_OK :: SceUID where
  "SCE_KERNEL_ERROR_OK = 0"

definition SCE_KERNEL_ERROR_NO_MEMORY :: SceUID where
  "SCE_KERNEL_ERROR_NO_MEMORY = 0x80020190"

definition SCE_KERNEL_ERROR_UNKNOWN_THID :: SceUID where
  "SCE_KERNEL_ERROR_UNKNOWN_THID = 0x80020198"

definition SCE_KERNEL_ERROR_UNKNOWN_SEMID :: SceUID where
  "SCE_KERNEL_ERROR_UNKNOWN_SEMID = 0x80020199"

definition SCE_KERNEL_ERROR_WAIT_TIMEOUT :: SceUID where
  "SCE_KERNEL_ERROR_WAIT_TIMEOUT = 0x800201a8"

definition SCE_KERNEL_ERROR_SEMA_OVF :: SceUID where
  "SCE_KERNEL_ERROR_SEMA_OVF = 0x800201ae"

definition SCE_KERNEL_ERROR_WAIT_DELETE :: SceUID where
  "SCE_KERNEL_ERROR_WAIT_DELETE = 0x800201b5"

definition SCE_KERNEL_ERROR_ILLEGAL_COUNT :: SceUID where
  "SCE_KERNEL_ERROR_ILLEGAL_COUNT = 0x800201bd"

definition PSP_THREAD_STOPPED :: int where
  "PSP_THREAD_STOPPED = 16"

definition MAX_PSP_UID :: int where
  "MAX_PSP_UID = 2048"

definition DEFAULT_STACK_SIZE_BYTES :: int where
  "DEFAULT_STACK_SIZE_BYTES = 4096"

definition PSP_MAX_TLS :: int where
  "PSP_MAX_TLS = 32"

text \<open>
  Modelled from the spec: the fixed polling delay of the cancellable waits, in microseconds.
  The header that defines \<open>POLLING_DELAY_IN_us\<close> is not among the sources; no theorem
  depends on the number.
\<close>

definition POLLING_DELAY_IN_us :: SceUInt where
  "POLLING_DELAY_IN_us = 100"

text \<open>
  Modelled from the spec: the maximum count of a semaphore is ``the platform's largest
  representable count''. \<open>SEM_VALUE_MAX\<close> is defined outside the sources.
\<close>

definition SEM_VALUE_MAX :: int where
  "SEM_VALUE_MAX = 2147483647"

subsection \<open>The state\<close>

record sema =
  currentCount :: int
  maxCount :: int

record kthread =
  name :: string
  status :: int
  priority :: int
  stackSize :: int

text \<open>The per-thread control block of the C file.\<close>

record pspThreadData =
  entryPoint :: addr
  argv :: addr
  cancelSem :: SceUID

text \<open>The kernel calls the code makes, recorded in the order it makes them.\<close>

datatype syscall =
    CreateSema string int int
  | DeleteSema SceUID
  | SignalSema SceUID int
  | WaitSema SceUID int "SceUInt option"
  | ReferSemaStatus SceUID
  | CreateThread string int int
  | DeleteThread SceUID
  | ReferThreadStatus SceUID
  | ReferThreadRunStatus SceUID
  | DelayThread SceUInt
  | GetThreadId

text \<open>
  \<^item> \<open>semas\<close>, \<open>threads\<close>: the kernel's live semaphores and threads, by identifier;
    \<open>current\<close> is the running thread.
  \<^item> \<open>sema_uids\<close>, \<open>thread_uids\<close>: what the kernel will answer to the next creation
    requests: an identifier for the new object, or an error code (a negative value) when it
    refuses. An exhausted list refuses with \<open>SCE_KERNEL_ERROR_NO_MEMORY\<close>.
  \<^item> \<open>clock_us\<close>: the microsecond clock that \<open>clock()\<close> reads. It runs: a kernel
    call \<open>e\<close> takes \<open>call_us e\<close> microseconds of it, a delay and a wait that times out
    take their time on top of that, and the rest of the system moves it as it likes.
  \<^item> \<open>allocs\<close>: what the allocator will answer to the next requests: an address, or \<open>NULL\<close>
    when it fails; \<open>live\<close> is the set of blocks allocated and not freed.
  \<^item> \<open>tdata\<close>, \<open>tls\<close>, \<open>ints\<close>: memory, read as control blocks, as slot tables and as
    integers, at every address. Where the C code reads a control block through a pointer
    that it has not tested and that is \<open>NULL\<close>, the function that does so faults.
  \<^item> \<open>uninit_name\<close>: the contents of the uninitialised name buffer on the stack of
    \<open>getTlsStructFromThread\<close>, which it reads when the kernel did not fill it.
  \<^item> the static variables of the C file (\<open>threadDataKey\<close>, \<open>globalTls\<close>, \<open>threadNum\<close>,
    \<open>mutexCtr\<close>, \<open>semCtr\<close>) and of the slot-key pool (\<open>keysUsed\<close>, \<open>maxTlsValues\<close>).
\<close>

record state =
  semas :: "SceUID \<rightharpoonup> sema"
  threads :: "SceUID \<rightharpoonup> kthread"
  current :: SceUID
  sema_uids :: "SceUID list"
  thread_uids :: "SceUID list"
  clock_us :: "32 word"
  call_us :: "syscall \<Rightarrow> 32 word"
  intr :: "32 word"
  trace :: "syscall list"
  uninit_name :: string
  live :: "addr set"
  allocs :: "addr list"
  tdata :: "addr \<Rightarrow> pspThreadData"
  tls :: "addr \<Rightarrow> 32 word \<Rightarrow> addr"
  ints :: "addr \<Rightarrow> 32 word"
  keysUsed :: "32 word list"
  maxTlsValues :: int
  threadDataKey :: "32 word"
  globalTls :: addr
  threadNum :: int
  mutexCtr :: int
  semCtr :: int

text \<open>
  The rest of the system: what the other threads and the clock do to the state while the
  caller is not running. It is a parameter of every operation that can give up the
  processor; nothing is assumed of it.
\<close>

type_synonym world = "state \<Rightarrow> state"

text \<open>What every kernel call does: it is recorded, and it takes its time.\<close>

definition kcall :: "syscall \<Rightarrow> state \<Rightarrow> state" where
  "kcall e s = s\<lparr>trace := trace s @ [e], clock_us := clock_us s + call_us s e\<rparr>"

subsection \<open>The kernel\<close>

text \<open>
  The kernel is not part of the C file. Its model keeps what the code relies on: a counting
  semaphore holds a count between 0 and its maximum, an acquire takes units when there are
  enough of them, a release adds units, a status query changes nothing, and every call
  answers \<open>SCE_KERNEL_ERROR_OK\<close> or a negative error code.
\<close>

definition sceKernelGetThreadId :: "state \<Rightarrow> SceUID \<times> state" where
  "sceKernelGetThreadId s = (current s, kcall GetThreadId s)"

definition sceKernelCreateSema ::
  "string \<Rightarrow> SceUInt \<Rightarrow> int \<Rightarrow> int \<Rightarrow> addr \<Rightarrow> state \<Rightarrow> SceUID \<times> state" where
  "sceKernelCreateSema nm attr initVal maxVal opt s =
     (let s1 = kcall (CreateSema nm initVal maxVal) s in
      if initVal < 0 \<or> maxVal \<le> 0 \<or> maxVal < initVal then (SCE_KERNEL_ERROR_ILLEGAL_COUNT, s1)
      else
        (case sema_uids s1 of
           [] \<Rightarrow> (SCE_KERNEL_ERROR_NO_MEMORY, s1)
         | u # us \<Rightarrow>
             if u <s 0 then (u, s1\<lparr>sema_uids := us\<rparr>)
             else (u, s1\<lparr>sema_uids := us,
                        semas := (semas s1)(u \<mapsto> \<lparr>currentCount = initVal, maxCount = maxVal\<rparr>)\<rparr>)))"

definition sceKernelSignalSema :: "SceUID \<Rightarrow> int \<Rightarrow> state \<Rightarrow> SceUID \<times> state" where
  "sceKernelSignalSema semaid signal s =
     (let s1 = kcall (SignalSema semaid signal) s in
      case semas s1 semaid of
        None \<Rightarrow> (SCE_KERNEL_ERROR_UNKNOWN_SEMID, s1)
      | Some sm \<Rightarrow>
          if maxCount sm < currentCount sm + signal then (SCE_KERNEL_ERROR_SEMA_OVF, s1)
          else (SCE_KERNEL_ERROR_OK,
                s1\<lparr>semas := (semas s1)(semaid \<mapsto> sm\<lparr>currentCount := currentCount sm + signal\<rparr>)\<rparr>))"

definition sceKernelDeleteSema :: "SceUID \<Rightarrow> state \<Rightarrow> SceUID \<times> state" where
  "sceKernelDeleteSema semaid s =
     (let s1 = kcall (DeleteSema semaid) s in
      case semas s1 semaid of
        None \<Rightarrow> (SCE_KERNEL_ERROR_UNKNOWN_SEMID, s1)
      | Some sm \<Rightarrow> (SCE_KERNEL_ERROR_OK, s1\<lparr>semas := (semas s1)(semaid := None)\<rparr>))"

text \<open>
  An acquire with a timeout. With enough units it takes them at once. With a zero timeout
  it never suspends the caller: it is the probe of the polling loops. Otherwise the caller
  is suspended while the rest of the system runs, and gets the units if they have arrived.
\<close>

definition take_units :: "SceUID \<Rightarrow> sema \<Rightarrow> int \<Rightarrow> state \<Rightarrow> state" where
  "take_units semaid sm signal s =
     s\<lparr>semas := (semas s)(semaid \<mapsto> sm\<lparr>currentCount := currentCount sm - signal\<rparr>)\<rparr>"

definition sceKernelWaitSema ::
  "world \<Rightarrow> SceUID \<Rightarrow> int \<Rightarrow> SceUInt \<Rightarrow> state \<Rightarrow> SceUID \<times> state" where
  "sceKernelWaitSema env semaid signal timeout s =
     (let s1 = kcall (WaitSema semaid signal (Some timeout)) s in
      case semas s1 semaid of
        None \<Rightarrow> (SCE_KERNEL_ERROR_UNKNOWN_SEMID, s1)
      | Some sm \<Rightarrow>
          if signal \<le> currentCount sm then (SCE_KERNEL_ERROR_OK, take_units semaid sm signal s1)
          else if timeout = 0 then (SCE_KERNEL_ERROR_WAIT_TIMEOUT, s1)
          else
            (let s2 = env s1 in
             case semas s2 semaid of
               None \<Rightarrow> (SCE_KERNEL_ERROR_WAIT_DELETE, s2)
             | Some sm2 \<Rightarrow>
                 if signal \<le> currentCount sm2
                 then (SCE_KERNEL_ERROR_OK, take_units semaid sm2 signal s2)
                 else (SCE_KERNEL_ERROR_WAIT_TIMEOUT, s2\<lparr>clock_us := clock_us s2 + timeout\<rparr>)))"

text \<open>
  An acquire without a timeout (the C call with a \<open>NULL\<close> timeout pointer): the caller
  that is not served by what the rest of the system does is never woken, which is \<open>None\<close>.
\<close>

definition sceKernelWaitSema_NULL ::
  "world \<Rightarrow> SceUID \<Rightarrow> int \<Rightarrow> state \<Rightarrow> (SceUID \<times> state) option" where
  "sceKernelWaitSema_NULL env semaid signal s =
     (let s1 = kcall (WaitSema semaid signal None) s in
      case semas s1 semaid of
        None \<Rightarrow> Some (SCE_KERNEL_ERROR_UNKNOWN_SEMID, s1)
      | Some sm \<Rightarrow>
          if signal \<le> currentCount sm
          then Some (SCE_KERNEL_ERROR_OK, take_units semaid sm signal s1)
          else
            (let s2 = env s1 in
             case semas s2 semaid of
               None \<Rightarrow> Some (SCE_KERNEL_ERROR_WAIT_DELETE, s2)
             | Some sm2 \<Rightarrow>
                 if signal \<le> currentCount sm2
                 then Some (SCE_KERNEL_ERROR_OK, take_units semaid sm2 signal s2)
                 else None))"

text \<open>
  The status queries fill the caller's buffer on success and leave it alone on failure.
  The model returns the buffer after the call. For a semaphore the callers read it only
  after a successful call, so the model reports a zero record on failure; for the run
  status the caller has zeroed the buffer before the call.
\<close>

definition sceKernelReferSemaStatus :: "SceUID \<Rightarrow> state \<Rightarrow> SceUID \<times> sema \<times> state" where
  "sceKernelReferSemaStatus semaid s =
     (let s1 = kcall (ReferSemaStatus semaid) s in
      case semas s1 semaid of
        None \<Rightarrow> (SCE_KERNEL_ERROR_UNKNOWN_SEMID, \<lparr>currentCount = 0, maxCount = 0\<rparr>, s1)
      | Some sm \<Rightarrow> (SCE_KERNEL_ERROR_OK, sm, s1))"

definition sceKernelReferThreadRunStatus :: "SceUID \<Rightarrow> state \<Rightarrow> SceUID \<times> int \<times> state" where
  "sceKernelReferThreadRunStatus thid s =
     (let s1 = kcall (ReferThreadRunStatus thid) s in
      case threads s1 thid of
        None \<Rightarrow> (SCE_KERNEL_ERROR_UNKNOWN_THID, 0, s1)
      | Some t \<Rightarrow> (SCE_KERNEL_ERROR_OK, status t, s1))"

text \<open>
  The name of a thread, as \<open>getTlsStructFromThread\<close> reads it from its buffer after the
  call: the thread's name, or what the buffer held when the kernel knows no such thread.
\<close>

definition sceKernelReferThreadStatus :: "SceUID \<Rightarrow> state \<Rightarrow> SceUID \<times> string \<times> state" where
  "sceKernelReferThreadStatus thid s =
     (let s1 = kcall (ReferThreadStatus thid) s in
      case threads s1 thid of
        None \<Rightarrow> (SCE_KERNEL_ERROR_UNKNOWN_THID, uninit_name s1, s1)
      | Some t \<Rightarrow> (SCE_KERNEL_ERROR_OK, name t, s1))"

text \<open>
  A new thread is dormant, which the kernel reports as stopped. The entry point and the
  option block of the C call play no part in what the code observes and are left out.
\<close>

definition sceKernelCreateThread ::
  "string \<Rightarrow> int \<Rightarrow> int \<Rightarrow> SceUInt \<Rightarrow> state \<Rightarrow> SceUID \<times> state" where
  "sceKernelCreateThread nm initPriority stack attr s =
     (let s1 = kcall (CreateThread nm initPriority stack) s in
      case thread_uids s1 of
        [] \<Rightarrow> (SCE_KERNEL_ERROR_NO_MEMORY, s1)
      | u # us \<Rightarrow>
          if u <s 0 then (u, s1\<lparr>thread_uids := us\<rparr>)
          else (u, s1\<lparr>thread_uids := us,
                     threads := (threads s1)(u \<mapsto>
                       \<lparr>name = nm, status = PSP_THREAD_STOPPED,
                        priority = initPriority, stackSize = stack\<rparr>)\<rparr>))"

definition sceKernelDeleteThread :: "SceUID \<Rightarrow> state \<Rightarrow> SceUID \<times> state" where
  "sceKernelDeleteThread thid s =
     (let s1 = kcall (DeleteThread thid) s in
      case threads s1 thid of
        None \<Rightarrow> (SCE_KERNEL_ERROR_UNKNOWN_THID, s1)
      | Some t \<Rightarrow> (SCE_KERNEL_ERROR_OK, s1\<lparr>threads := (threads s1)(thid := None)\<rparr>))"

definition sceKernelDelayThread :: "SceUInt \<Rightarrow> state \<Rightarrow> state" where
  "sceKernelDelayThread delay s =
     (let s1 = kcall (DelayThread delay) s in s1\<lparr>clock_us := clock_us s1 + delay\<rparr>)"

text \<open>\<open>clock()\<close> reads the running clock.\<close>

definition clock :: "state \<Rightarrow> 32 word" where
  "clock s = clock_us s"

subsection \<open>The heap\<close>

definition malloc :: "state \<Rightarrow> addr \<times> state" where
  "malloc s =
     (case allocs s of
        [] \<Rightarrow> (NULL, s)
      | p # ps \<Rightarrow>
          if p = NULL then (NULL, s\<lparr>allocs := ps\<rparr>)
          else (p, s\<lparr>allocs := ps, live := insert p (live s)\<rparr>))"

definition free :: "addr \<Rightarrow> state \<Rightarrow> state" where
  "free p s = s\<lparr>live := live s - {p}\<rparr>"

subsection \<open>The slot tables of the thread-local storage helper\<close>

text \<open>
  Modelled from the spec: the helper functions \<open>pteTlsGlobalInit\<close>, \<open>pteTlsAlloc\<close>,
  \<open>pteTlsThreadInit\<close>, \<open>pteTlsThreadDestroy\<close>, \<open>pteTlsSetValue\<close> and \<open>pteTlsGetValue\<close>
  are declared in tls-helper.h and defined outside the sources. The spec gives them as: a
  process-wide initialisation of a bounded pool of slot keys; allocation of a key from the
  pool; a new table with all slots empty for a thread; its release; and direct slot write
  and read, where reading an unset slot yields the empty value and not an error. The spec
  does not say what a \<open>NULL\<close> table does; here it has no slots: a read gives the empty
  value and a write is dropped.
\<close>

definition pteTlsGlobalInit :: "int \<Rightarrow> state \<Rightarrow> pte_osResult \<times> state" where
  "pteTlsGlobalInit maxEntries s =
     (let (p, s1) = malloc s in
      if p = NULL then (PTE_OS_NO_RESOURCES, s1)
      else (PTE_OS_OK, s1\<lparr>keysUsed := [], maxTlsValues := maxEntries\<rparr>))"

definition pteTlsAlloc :: "state \<Rightarrow> pte_osResult \<times> 32 word option \<times> state" where
  "pteTlsAlloc s =
     (case filter (\<lambda>k. k \<notin> set (keysUsed s)) (map word_of_int [1 .. maxTlsValues s]) of
        [] \<Rightarrow> (PTE_OS_NO_RESOURCES, None, s)
      | k # _ \<Rightarrow> (PTE_OS_OK, Some k, s\<lparr>keysUsed := k # keysUsed s\<rparr>))"

definition pteTlsThreadInit :: "state \<Rightarrow> addr \<times> state" where
  "pteTlsThreadInit s =
     (let (p, s1) = malloc s in
      if p = NULL then (NULL, s1)
      else (p, s1\<lparr>tls := (tls s1)(p := (\<lambda>k. NULL))\<rparr>))"

definition pteTlsThreadDestroy :: "addr \<Rightarrow> state \<Rightarrow> state" where
  "pteTlsThreadDestroy pTls s = free pTls s"

definition pteTlsSetValue :: "addr \<Rightarrow> 32 word \<Rightarrow> addr \<Rightarrow> state \<Rightarrow> state" where
  "pteTlsSetValue pTls key v s =
     (if pTls = NULL then s else s\<lparr>tls := (tls s)(pTls := (tls s pTls)(key := v))\<rparr>)"

definition pteTlsGetValue :: "addr \<Rightarrow> 32 word \<Rightarrow> state \<Rightarrow> addr" where
  "pteTlsGetValue pTls key s = (if pTls = NULL then NULL else tls s pTls key)"

subsection \<open>Formatting and scanning names\<close>

text \<open>
  The C library's \<open>snprintf\<close> and \<open>sscanf\<close>, for the formats the file uses: \<open>%d\<close> and
  \<open>%04d\<close> print a decimal number (the second padded with zeros to four characters),
  \<open>%x\<close> prints a 32-bit value in lower-case hexadecimal without leading zeros.
\<close>

definition digit_char :: "nat \<Rightarrow> char" where
  "digit_char d = ''0123456789abcdef'' ! (d mod 16)"

function radix :: "int \<Rightarrow> int \<Rightarrow> string" where
  "radix b n =
     (if b < 2 \<or> n < b then [digit_char (nat n)]
      else radix b (n div b) @ [digit_char (nat (n mod b))])"
  by pat_completeness auto
termination
  by (relation "measure (\<lambda>(b, n). nat n)") (auto simp: int_div_less_self)

declare radix.simps [simp del]

definition zero_pad :: "nat \<Rightarrow> string \<Rightarrow> string" where
  "zero_pad w ds = replicate (w - length ds) (CHR ''0'') @ ds"

definition printf_d :: "int \<Rightarrow> string" where
  "printf_d i = (if i < 0 then CHR ''-'' # radix 10 (- i) else radix 10 i)"

definition printf_04d :: "int \<Rightarrow> string" where
  "printf_04d i =
     (if i < 0 then CHR ''-'' # zero_pad 3 (radix 10 (- i)) else zero_pad 4 (radix 10 i))"

definition printf_x :: "32 word \<Rightarrow> string" where
  "printf_x w = radix 16 (uint w)"

text \<open>\<open>snprintf\<close> into a buffer of \<open>n\<close> bytes keeps at most \<open>n - 1\<close> characters.\<close>

definition snprintf :: "nat \<Rightarrow> string \<Rightarrow> string" where
  "snprintf n str = take (n - 1) str"

text \<open>
  Scanning. A literal of the format must be matched character by character. A number
  skips white space first, then takes an optional sign and the digits, \<open>%04d\<close> at most four
  characters of them; \<open>%x\<close> also takes a \<open>0x\<close> in front of a hexadecimal digit. A value
  too large for 32 bits is read as the largest one, as \<open>strtoul\<close> does.
\<close>

datatype 'a scanned = Scanned 'a string | NoMatch | NoInput

fun scan_literal :: "string \<Rightarrow> string \<Rightarrow> unit scanned" where
  "scan_literal [] inp = Scanned () inp"
| "scan_literal (c # cs) [] = NoInput"
| "scan_literal (c # cs) (d # ds) = (if c = d then scan_literal cs ds else NoMatch)"

definition isspace :: "char \<Rightarrow> bool" where
  "isspace c = (c \<in> set [CHR '' '', CHR 0x09, CHR 0x0A, CHR 0x0B, CHR 0x0C, CHR 0x0D])"

definition isdigit :: "char \<Rightarrow> bool" where
  "isdigit c = (c \<in> set ''0123456789'')"

definition isxdigit :: "char \<Rightarrow> bool" where
  "isxdigit c = (c \<in> set ''0123456789abcdefABCDEF'')"

definition digit_val :: "char \<Rightarrow> nat" where
  "digit_val c =
     (if c \<in> set ''0123456789'' then of_char c - 48
      else if c \<in> set ''abcdef'' then of_char c - 87
      else of_char c - 55)"

definition number :: "int \<Rightarrow> string \<Rightarrow> int" where
  "number b ds = foldl (\<lambda>a c. a * b + int (digit_val c)) 0 ds"

definition scan_d :: "nat \<Rightarrow> string \<Rightarrow> int scanned" where
  "scan_d width inp =
     (case dropWhile isspace inp of
        [] \<Rightarrow> NoInput
      | c # cs \<Rightarrow>
          (let signed = (c = CHR ''-'' \<or> c = CHR ''+'');
               body = (if signed then cs else c # cs);
               ds = takeWhile isdigit (take (if signed then width - 1 else width) body)
           in if ds = [] then NoMatch
              else Scanned (if c = CHR ''-'' then - number 10 ds else number 10 ds)
                     (drop (length ds) body)))"

definition scan_x :: "string \<Rightarrow> 32 word scanned" where
  "scan_x inp =
     (case dropWhile isspace inp of
        [] \<Rightarrow> NoInput
      | c # cs \<Rightarrow>
          (let signed = (c = CHR ''-'' \<or> c = CHR ''+'');
               body = (if signed then cs else c # cs);
               body' = (case body of
                          z # x # d # r \<Rightarrow>
                            if z = CHR ''0'' \<and> (x = CHR ''x'' \<or> x = CHR ''X'') \<and> isxdigit d
                            then d # r else body
                        | _ \<Rightarrow> body);
               ds = takeWhile isxdigit body';
               n = number 16 ds
           in if ds = [] then NoMatch
              else Scanned (if 4294967296 \<le> n then - 1
                            else if c = CHR ''-'' then - word_of_int n else word_of_int n)
                     (drop (length ds) body')))"

text \<open>
  \<open>sscanf(name, "pthread%04d__%x", &thrNum, &ptr)\<close>: the number of fields assigned (or
  \<open>EOF\<close>, which is \<open>-1\<close>, when the input ends before the first field), and the two fields.
  A field that is not assigned is reported as 0; the caller reads the fields only when
  both were assigned.
\<close>

definition sscanf_pthread :: "string \<Rightarrow> int \<times> int \<times> 32 word" where
  "sscanf_pthread str =
     (case scan_literal ''pthread'' str of
        NoInput \<Rightarrow> (- 1, 0, 0)
      | NoMatch \<Rightarrow> (0, 0, 0)
      | Scanned u r1 \<Rightarrow>
          (case scan_d 4 r1 of
             NoInput \<Rightarrow> (- 1, 0, 0)
           | NoMatch \<Rightarrow> (0, 0, 0)
           | Scanned thrNum r2 \<Rightarrow>
               (case scan_literal ''__'' r2 of
                  Scanned u' r3 \<Rightarrow>
                    (case scan_x r3 of
                       Scanned ptr r4 \<Rightarrow> (2, thrNum, ptr)
                     | NoMatch \<Rightarrow> (1, thrNum, 0)
                     | NoInput \<Rightarrow> (1, thrNum, 0))
                | NoMatch \<Rightarrow> (1, thrNum, 0)
                | NoInput \<Rightarrow> (1, thrNum, 0))))"

text \<open>
  The table address a thread name encodes, when the name follows the pattern: the literal
  \<open>pthread\<close>, a decimal number of at most four characters, two underscores and a
  hexadecimal number. Both fields have to parse.
\<close>

definition parsed_table :: "string \<Rightarrow> addr option" where
  "parsed_table str =
     (case scan_literal ''pthread'' str of
        Scanned u r1 \<Rightarrow>
          (case scan_d 4 r1 of
             Scanned thrNum r2 \<Rightarrow>
               (case scan_literal ''__'' r2 of
                  Scanned u' r3 \<Rightarrow>
                    (case scan_x r3 of
                       Scanned ptr r4 \<Rightarrow> Some ptr
                     | NoMatch \<Rightarrow> None
                     | NoInput \<Rightarrow> None)
                | NoMatch \<Rightarrow> None
                | NoInput \<Rightarrow> None)
           | NoMatch \<Rightarrow> None
           | NoInput \<Rightarrow> None)
      | NoMatch \<Rightarrow> None
      | NoInput \<Rightarrow> None)"

subsection \<open>Helper functions of the C file\<close>

definition getTlsStructFromThread :: "SceUID \<Rightarrow> state \<Rightarrow> addr \<times> state" where
  "getTlsStructFromThread thid s =
     (let (r, thinfo_name, s1) = sceKernelReferThreadStatus thid s;
          (numMatches, thrNum, ptr) = sscanf_pthread thinfo_name
      in (if numMatches = 2 then ptr else globalTls s1, s1))"

definition getThreadData :: "SceUID \<Rightarrow> state \<Rightarrow> addr \<times> state" where
  "getThreadData threadHandle s =
     (let (pTls, s1) = getTlsStructFromThread threadHandle s
      in (pteTlsGetValue pTls (threadDataKey s1) s1, s1))"

subsection \<open>Initialization\<close>

definition pte_osInit :: "state \<Rightarrow> pte_osResult \<times> state" where
  "pte_osInit s =
     (let (result, s1) = pteTlsGlobalInit PSP_MAX_TLS s in
      if result = PTE_OS_OK then
        (let (result, key, s2) = pteTlsAlloc s1;
             s3 = (case key of None \<Rightarrow> s2 | Some k \<Rightarrow> s2\<lparr>threadDataKey := k\<rparr>)
         in if result = PTE_OS_OK then
              (let (p, s4) = pteTlsThreadInit s3;
                   s5 = s4\<lparr>globalTls := p\<rparr>;
                   (pThreadData, s6) = malloc s5
               in if pThreadData = NULL then (PTE_OS_NO_RESOURCES, s6)
                  else
                    (let s7 = pteTlsSetValue (globalTls s6) (threadDataKey s6) pThreadData s6;
                         cancelSemName = snprintf 64 ''pthread_cancelSemGlobal'';
                         (sem, s8) = sceKernelCreateSema cancelSemName 0 0 255 0 s7;
                         s9 = s8\<lparr>tdata := (tdata s8)
                                (pThreadData := (tdata s8 pThreadData)\<lparr>cancelSem := sem\<rparr>)\<rparr>
                     in (PTE_OS_OK, s9)))
            else (result, s3))
      else (result, s1))"

subsection \<open>Threads\<close>

text \<open>
  \<open>pte_osThreadCreate\<close> writes the handle through its last parameter only when it
  succeeds: the second component of the result is the handle written, if any.
\<close>

definition pte_osThreadCreate ::
  "addr \<Rightarrow> int \<Rightarrow> int \<Rightarrow> addr \<Rightarrow> state \<Rightarrow> pte_osResult \<times> SceUID option \<times> state" where
  "pte_osThreadCreate entry stack initialPriority arg s =
     (let s1 = s\<lparr>threadNum := (if threadNum s > MAX_PSP_UID then 0 else threadNum s + 1)\<rparr>;
          stack' = (if stack < DEFAULT_STACK_SIZE_BYTES then DEFAULT_STACK_SIZE_BYTES else stack);
          (pTls, s2) = pteTlsThreadInit s1
      in if pTls = NULL then (PTE_OS_NO_RESOURCES, None, s2)
         else
           (let (pThreadData, s3) = malloc s2
            in if pThreadData = NULL
               then (PTE_OS_NO_RESOURCES, None, pteTlsThreadDestroy pTls s3)
               else
                 (let s4 = pteTlsSetValue pTls (threadDataKey s3) pThreadData s3;
                      s5 = s4\<lparr>tdata := (tdata s4)
                             (pThreadData := (tdata s4 pThreadData)\<lparr>entryPoint := entry, argv := arg\<rparr>)\<rparr>;
                      cancelSemName = snprintf 64 (''pthread_cancelSem'' @ printf_04d (threadNum s5));
                      (sem, s6) = sceKernelCreateSema cancelSemName 0 0 255 0 s5;
                      s7 = s6\<lparr>tdata := (tdata s6)
                             (pThreadData := (tdata s6 pThreadData)\<lparr>cancelSem := sem\<rparr>)\<rparr>;
                      threadName = snprintf 64
                        (''pthread'' @ printf_04d (threadNum s7) @ ''__'' @ printf_x pTls);
                      pspAttr = 0;
                      (threadId, s8) = sceKernelCreateThread threadName initialPriority stack' pspAttr s7
                  in if threadId = SCE_KERNEL_ERROR_NO_MEMORY
                     then (PTE_OS_NO_RESOURCES, None, pteTlsThreadDestroy pTls (free pThreadData s8))
                     else if threadId <s 0
                     then (PTE_OS_GENERAL_FAILURE, None, pteTlsThreadDestroy pTls (free pThreadData s8))
                     else (PTE_OS_OK, Some threadId, s8))))"

text \<open>
  \<open>pte_osThreadDelete\<close> and \<open>pte_osThreadCancel\<close> read the field \<open>cancelSem\<close> through
  the control-block pointer without testing the pointer. With \<open>NULL\<close> the program faults
  at that read and the function does not return: the result is the fault.
\<close>

datatype fault = NullDereference

definition pte_osThreadDelete :: "SceUID \<Rightarrow> state \<Rightarrow> fault + pte_osResult \<times> state" where
  "pte_osThreadDelete handle s =
     (let (pTls, s1) = getTlsStructFromThread handle s;
          (pThreadData, s2) = getThreadData handle s1
      in if pThreadData = NULL then Inl NullDereference
         else
           (let (r, s3) = sceKernelDeleteSema (cancelSem (tdata s2 pThreadData)) s2;
                s4 = free pThreadData s3;
                s5 = pteTlsThreadDestroy pTls s4;
                (r', s6) = sceKernelDeleteThread handle s5
            in Inr (PTE_OS_OK, s6)))"

definition pte_osThreadCancel :: "SceUID \<Rightarrow> state \<Rightarrow> fault + pte_osResult \<times> state" where
  "pte_osThreadCancel threadHandle s =
     (let (pThreadData, s1) = getThreadData threadHandle s
      in if pThreadData = NULL then Inl NullDereference
         else
           (let (osResult, s2) = sceKernelSignalSema (cancelSem (tdata s1 pThreadData)) 1 s1
            in Inr (if osResult = SCE_KERNEL_ERROR_OK then PTE_OS_OK
                    else PTE_OS_GENERAL_FAILURE, s2)))"

definition pte_osThreadCheckCancel :: "SceUID \<Rightarrow> state \<Rightarrow> pte_osResult \<times> state" where
  "pte_osThreadCheckCancel threadHandle s =
     (let (pThreadData, s1) = getThreadData threadHandle s
      in if pThreadData \<noteq> NULL then
           (let (osResult, semInfo, s2) = sceKernelReferSemaStatus (cancelSem (tdata s1 pThreadData)) s1
            in if osResult = SCE_KERNEL_ERROR_OK then
                 (if currentCount semInfo > 0 then (PTE_OS_INTERRUPTED, s2) else (PTE_OS_OK, s2))
               else (PTE_OS_GENERAL_FAILURE, s2))
         else (PTE_OS_GENERAL_FAILURE, s1))"

text \<open>
  The polling loops. One round of a loop either leaves it with a result or asks for another
  round. Between two rounds the rest of the system runs. A loop that never leaves has no
  result: \<open>None\<close>.
\<close>

datatype round = Break pte_osResult | Repeat

definition WaitForEnd_round :: "SceUID \<Rightarrow> addr \<Rightarrow> state \<Rightarrow> round \<times> state" where
  "WaitForEnd_round threadHandle pThreadData s =
     (let (r, info_status, s1) = sceKernelReferThreadRunStatus threadHandle s
      in if info_status = PSP_THREAD_STOPPED then (Break PTE_OS_OK, s1)
         else if pThreadData \<noteq> NULL then
           (let (osResult, semInfo, s2) = sceKernelReferSemaStatus (cancelSem (tdata s1 pThreadData)) s1
            in if osResult = SCE_KERNEL_ERROR_OK then
                 (if currentCount semInfo > 0 then (Break PTE_OS_INTERRUPTED, s2)
                  else (Repeat, sceKernelDelayThread POLLING_DELAY_IN_us s2))
               else (Break PTE_OS_GENERAL_FAILURE, s2))
         else (Repeat, s1))"

partial_function (option) WaitForEnd_loop ::
  "world \<Rightarrow> SceUID \<Rightarrow> addr \<Rightarrow> state \<Rightarrow> (pte_osResult \<times> state) option" where
  "WaitForEnd_loop env threadHandle pThreadData s =
     (case WaitForEnd_round threadHandle pThreadData s of
        (Break result, s1) \<Rightarrow> Some (result, s1)
      | (Repeat, s1) \<Rightarrow> WaitForEnd_loop env threadHandle pThreadData (env s1))"

declare WaitForEnd_loop.simps [code]

definition pte_osThreadWaitForEnd :: "world \<Rightarrow> SceUID \<Rightarrow> state \<Rightarrow> (pte_osResult \<times> state) option" where
  "pte_osThreadWaitForEnd env threadHandle s =
     (let (tid, s1) = sceKernelGetThreadId s;
          (pThreadData, s2) = getThreadData tid s1
      in WaitForEnd_loop env threadHandle pThreadData s2)"

subsection \<open>Mutexes\<close>

text \<open>Both creation functions write the kernel's answer through the handle pointer.\<close>

definition pte_osMutexCreate :: "state \<Rightarrow> pte_osResult \<times> SceUID \<times> state" where
  "pte_osMutexCreate s =
     (let s1 = s\<lparr>mutexCtr := (if mutexCtr s > MAX_PSP_UID then 0 else mutexCtr s + 1)\<rparr>;
          mutexName = snprintf 32 (''mutex'' @ printf_d (mutexCtr s1));
          (handle, s2) = sceKernelCreateSema mutexName 0 1 1 0 s1
      in (PTE_OS_OK, handle, s2))"

definition pte_osMutexTimedLock :: "world \<Rightarrow> SceUID \<Rightarrow> 32 word \<Rightarrow> state \<Rightarrow> pte_osResult \<times> state" where
  "pte_osMutexTimedLock env handle timeoutMsecs s =
     (let timeoutUsecs = timeoutMsecs * 1000;
          (status, s1) = sceKernelWaitSema env handle 1 timeoutUsecs s
      in (if status <s 0 then PTE_OS_TIMEOUT else PTE_OS_OK, s1))"

subsection \<open>Semaphores\<close>

definition pte_osSemaphoreCreate :: "int \<Rightarrow> state \<Rightarrow> pte_osResult \<times> SceUID \<times> state" where
  "pte_osSemaphoreCreate initialValue s =
     (let s1 = s\<lparr>semCtr := (if semCtr s > MAX_PSP_UID then 0 else semCtr s + 1)\<rparr>;
          semName = snprintf 32 (''pthread_sem'' @ printf_d (semCtr s1));
          (handle, s2) = sceKernelCreateSema semName 0 initialValue SEM_VALUE_MAX 0 s1
      in (PTE_OS_OK, handle, s2))"

text \<open>The timeout parameter is a pointer: \<open>None\<close> is \<open>NULL\<close>, a wait without a timeout.\<close>

definition pte_osSemaphorePend ::
  "world \<Rightarrow> SceUID \<Rightarrow> 32 word option \<Rightarrow> state \<Rightarrow> (pte_osResult \<times> state) option" where
  "pte_osSemaphorePend env handle pTimeoutMsecs s =
     (case (case pTimeoutMsecs of
              None \<Rightarrow> sceKernelWaitSema_NULL env handle 1 s
            | Some msecs \<Rightarrow> Some (sceKernelWaitSema env handle 1 (msecs * 1000) s)) of
        None \<Rightarrow> None
      | Some (result, s1) \<Rightarrow>
          Some (if result = SCE_KERNEL_ERROR_OK then PTE_OS_OK
                else if result = SCE_KERNEL_ERROR_WAIT_TIMEOUT then PTE_OS_TIMEOUT
                else PTE_OS_GENERAL_FAILURE, s1))"

definition CancellablePend_round ::
  "world \<Rightarrow> SceUID \<Rightarrow> bool \<Rightarrow> 32 word \<Rightarrow> 32 word \<Rightarrow> addr \<Rightarrow> state \<Rightarrow> round \<times> state" where
  "CancellablePend_round env semHandle timeoutEnabled start_time timeout pThreadData s =
     (let semTimeout = 0;
          (status, s1) = sceKernelWaitSema env semHandle 1 semTimeout s
      in if status = SCE_KERNEL_ERROR_OK then (Break PTE_OS_OK, s1)
         else if timeoutEnabled \<and> clock s1 - start_time > timeout then (Break PTE_OS_TIMEOUT, s1)
         else if pThreadData \<noteq> NULL then
           (let (osResult, semInfo, s2) = sceKernelReferSemaStatus (cancelSem (tdata s1 pThreadData)) s1
            in if osResult = SCE_KERNEL_ERROR_OK then
                 (if currentCount semInfo > 0 then (Break PTE_OS_INTERRUPTED, s2)
                  else (Repeat, sceKernelDelayThread POLLING_DELAY_IN_us s2))
               else (Break PTE_OS_GENERAL_FAILURE, s2))
         else (Repeat, s1))"

partial_function (option) CancellablePend_loop ::
  "world \<Rightarrow> SceUID \<Rightarrow> bool \<Rightarrow> 32 word \<Rightarrow> 32 word \<Rightarrow> addr \<Rightarrow> state \<Rightarrow> (pte_osResult \<times> state) option" where
  "CancellablePend_loop env semHandle timeoutEnabled start_time timeout pThreadData s =
     (case CancellablePend_round env semHandle timeoutEnabled start_time timeout pThreadData s of
        (Break result, s1) \<Rightarrow> Some (result, s1)
      | (Repeat, s1) \<Rightarrow>
          CancellablePend_loop env semHandle timeoutEnabled start_time timeout pThreadData (env s1))"

declare CancellablePend_loop.simps [code]

definition pte_osSemaphoreCancellablePend ::
  "world \<Rightarrow> SceUID \<Rightarrow> 32 word option \<Rightarrow> state \<Rightarrow> (pte_osResult \<times> state) option" where
  "pte_osSemaphoreCancellablePend env semHandle pTimeout s =
     (let (tid, s1) = sceKernelGetThreadId s;
          (pThreadData, s2) = getThreadData tid s1;
          start_time = clock s2;
          (timeout, timeoutEnabled) =
            (case pTimeout of None \<Rightarrow> (0, False) | Some msecs \<Rightarrow> (msecs * 1000, True))
      in CancellablePend_loop env semHandle timeoutEnabled start_time timeout pThreadData s2)"

subsection \<open>Atomic operations\<close>

text \<open>
  \<open>pspSdkDisableInterrupts\<close> masks the interrupts and returns the state they were in;
  \<open>pspSdkEnableInterrupts\<close> puts a saved state back.
\<close>

definition pspSdkDisableInterrupts :: "state \<Rightarrow> 32 word \<times> state" where
  "pspSdkDisableInterrupts s = (intr s, s\<lparr>intr := 0\<rparr>)"

definition pspSdkEnableInterrupts :: "32 word \<Rightarrow> state \<Rightarrow> state" where
  "pspSdkEnableInterrupts flags s = s\<lparr>intr := flags\<rparr>"

definition pte_osAtomicCompareExchange ::
  "addr \<Rightarrow> 32 word \<Rightarrow> 32 word \<Rightarrow> state \<Rightarrow> 32 word \<times> state" where
  "pte_osAtomicCompareExchange pdest exchange comparand s =
     (let (intc, s1) = pspSdkDisableInterrupts s;
          origVal = ints s1 pdest;
          s2 = (if ints s1 pdest = comparand then s1\<lparr>ints := (ints s1)(pdest := exchange)\<rparr> else s1);
          s3 = pspSdkEnableInterrupts intc s2
      in (origVal, s3))"

subsection \<open>What a caller can observe of a state\<close>

text \<open>
  The answer of the kernel to the next creation request and of the allocator to the next
  allocation; whether an acquire of one unit
  succeeds at once; the count of the cancellation signal of a control block, if the kernel
  knows the signal; whether a cancellation is pending for a thread; whether a thread has
  stopped.
\<close>

definition next_uid :: "SceUID list \<Rightarrow> SceUID" where
  "next_uid us = (case us of [] \<Rightarrow> SCE_KERNEL_ERROR_NO_MEMORY | u # us' \<Rightarrow> u)"

definition next_alloc :: "addr list \<Rightarrow> addr" where
  "next_alloc as = (case as of [] \<Rightarrow> NULL | a # as' \<Rightarrow> a)"

definition available :: "state \<Rightarrow> SceUID \<Rightarrow> bool" where
  "available s semaid = (case semas s semaid of None \<Rightarrow> False | Some sm \<Rightarrow> 1 \<le> currentCount sm)"

definition cancel_count :: "state \<Rightarrow> addr \<Rightarrow> int option" where
  "cancel_count s pThreadData =
     (case semas s (cancelSem (tdata s pThreadData)) of
        None \<Rightarrow> None
      | Some sm \<Rightarrow> Some (currentCount sm))"

definition control_block :: "SceUID \<Rightarrow> state \<Rightarrow> addr" where
  "control_block thid s = fst (getThreadData thid s)"

definition cancel_pending :: "SceUID \<Rightarrow> state \<Rightarrow> bool" where
  "cancel_pending thid s =
     (control_block thid s \<noteq> NULL \<and>
      (case cancel_count s (control_block thid s) of None \<Rightarrow> False | Some c \<Rightarrow> 0 < c))"

definition stopped :: "state \<Rightarrow> SceUID \<Rightarrow> bool" where
  "stopped s thid =
     (case threads s thid of None \<Rightarrow> False | Some t \<Rightarrow> status t = PSP_THREAD_STOPPED)"

text \<open>
  The state at the start of round \<open>n\<close> of a join by a caller without a control block:
  each earlier round has asked for the run status of the target and then let the rest of
  the system run.
\<close>

definition spin_state :: "world \<Rightarrow> SceUID \<Rightarrow> nat \<Rightarrow> state \<Rightarrow> state" where
  "spin_state env th n s = ((\<lambda>s'. env (kcall (ReferThreadRunStatus th) s')) ^^ n) s"

subsection \<open>States to run the code on\<close>

text \<open>
  \<open>boot\<close>: the program has been started in its main thread and has called nothing yet;
  the kernel and the allocator will serve the next requests. \<open>boot_starved\<close>: the same,
  but the kernel refuses to create semaphores and the allocator fails on its second
  request. \<open>ready\<close>: after \<open>pte_osInit\<close>; \<open>running\<close>: after that, a first thread has
  been created, and the kernel has switched to it (\<open>dispatch\<close>: the thread is the current
  one and its run status is 1, running).
\<close>

definition boot :: state where
  "boot =
     \<lparr>semas = Map.empty,
      threads = [1 \<mapsto> \<lparr>name = ''user_main'', status = 1, priority = 32, stackSize = 262144\<rparr>],
      current = 1,
      sema_uids = [0x101, 0x102, 0x103, 0x104],
      thread_uids = [0x201, 0x202],
      clock_us = 0, call_us = (\<lambda>e. 2), intr = 1, trace = [], uninit_name = [],
      live = {},
      allocs = [0x8810000, 0x8810100, 0x8810200, 0x8810300, 0x8810400, 0x8810500],
      tdata = (\<lambda>a. \<lparr>entryPoint = 0, argv = 0, cancelSem = 0\<rparr>),
      tls = (\<lambda>a k. 0), ints = (\<lambda>a. 0),
      keysUsed = [], maxTlsValues = 0, threadDataKey = 0, globalTls = 0,
      threadNum = 1, mutexCtr = 0, semCtr = 0\<rparr>"

definition boot_starved :: state where
  "boot_starved = boot\<lparr>sema_uids := [], allocs := [0x8810000, 0, 0x8810200]\<rparr>"

definition ready :: state where
  "ready = snd (pte_osInit boot)"

definition dispatch :: "SceUID \<Rightarrow> state \<Rightarrow> state" where
  "dispatch thid s =
     s\<lparr>current := thid,
       threads := (threads s)(thid := map_option (\<lambda>t. t\<lparr>status := 1\<rparr>) (threads s thid))\<rparr>"

definition running :: state where
  "running = dispatch 0x201 (snd (snd (pte_osThreadCreate 0x8900000 8192 18 0 ready)))"



definition ambient_lost :: state where
  "ambient_lost =
     snd (snd (pte_osSemaphoreCreate 0
       (snd (pte_osInit (boot\<lparr>allocs := [0x8810000, 0, 0x8810200]\<rparr>)))))"



section \<open>Properties\<close>

subsection \<open>Facts about the allocator and the kernel calls\<close>

lemma malloc_ok:
  "allocs s = p # ps \<Longrightarrow> p \<noteq> NULL \<Longrightarrow>
   malloc s = (p, s\<lparr>allocs := ps, live := insert p (live s)\<rparr>)"
  by (simp add: malloc_def)

lemma pteTlsThreadInit_ok:
  "allocs s = p # ps \<Longrightarrow> p \<noteq> NULL \<Longrightarrow>
   pteTlsThreadInit s =
     (p, s\<lparr>allocs := ps, live := insert p (live s), tls := (tls s)(p := (\<lambda>k. NULL))\<rparr>)"
  by (simp add: pteTlsThreadInit_def malloc_ok)

lemma CreateSema_frame:
  "live (snd (sceKernelCreateSema nm attr i m opt s)) = live s"
  "allocs (snd (sceKernelCreateSema nm attr i m opt s)) = allocs s"
  "thread_uids (snd (sceKernelCreateSema nm attr i m opt s)) = thread_uids s"
  "threads (snd (sceKernelCreateSema nm attr i m opt s)) = threads s"
  "tdata (snd (sceKernelCreateSema nm attr i m opt s)) = tdata s"
  "tls (snd (sceKernelCreateSema nm attr i m opt s)) = tls s"
  "threadNum (snd (sceKernelCreateSema nm attr i m opt s)) = threadNum s"
  "trace (snd (sceKernelCreateSema nm attr i m opt s)) = trace s @ [CreateSema nm i m]"
  by (simp_all add: sceKernelCreateSema_def kcall_def Let_def split: list.splits)

lemma CreateSema_granted:
  "sema_uids s = u # us \<Longrightarrow> \<not> u <s 0 \<Longrightarrow> 0 \<le> i \<Longrightarrow> 0 < m \<Longrightarrow> i \<le> m \<Longrightarrow>
   fst (sceKernelCreateSema nm attr i m opt s) = u \<and>
   semas (snd (sceKernelCreateSema nm attr i m opt s)) =
     (semas s)(u \<mapsto> \<lparr>currentCount = i, maxCount = m\<rparr>) \<and>
   sema_uids (snd (sceKernelCreateSema nm attr i m opt s)) = us"
  by (simp add: sceKernelCreateSema_def kcall_def Let_def)

lemma CreateThread_refused:
  "next_uid (thread_uids s) <s 0 \<Longrightarrow>
   fst (sceKernelCreateThread nm p st attr s) = next_uid (thread_uids s) \<and>
   live (snd (sceKernelCreateThread nm p st attr s)) = live s \<and>
   semas (snd (sceKernelCreateThread nm p st attr s)) = semas s \<and>
   threads (snd (sceKernelCreateThread nm p st attr s)) = threads s \<and>
   sema_uids (snd (sceKernelCreateThread nm p st attr s)) = sema_uids s \<and>
   threadNum (snd (sceKernelCreateThread nm p st attr s)) = threadNum s \<and>
   trace (snd (sceKernelCreateThread nm p st attr s)) = trace s @ [CreateThread nm p st]"
  by (simp add: sceKernelCreateThread_def kcall_def Let_def next_uid_def split: list.splits)

lemma WaitSema_result:
  "fst (sceKernelWaitSema env semaid signal timeout s) = SCE_KERNEL_ERROR_OK \<or>
   fst (sceKernelWaitSema env semaid signal timeout s) <s 0"
  by (simp add: sceKernelWaitSema_def Let_def SCE_KERNEL_ERROR_OK_def
      SCE_KERNEL_ERROR_UNKNOWN_SEMID_def SCE_KERNEL_ERROR_WAIT_TIMEOUT_def
      SCE_KERNEL_ERROR_WAIT_DELETE_def word_sless_alt split: option.splits)

lemma OK_not_negative: "\<not> SCE_KERNEL_ERROR_OK <s 0"
  by (simp add: SCE_KERNEL_ERROR_OK_def)

lemma getThreadData_state: "snd (getThreadData h s) = kcall (ReferThreadStatus h) s"
  by (simp add: getThreadData_def getTlsStructFromThread_def sceKernelReferThreadStatus_def
      Let_def case_prod_beta split: option.splits)

lemma getThreadData_eq: "getThreadData h s = (control_block h s, kcall (ReferThreadStatus h) s)"
  by (simp add: control_block_def prod_eq_iff getThreadData_state)

lemma control_block_cong:
  "threads s' = threads s \<Longrightarrow> uninit_name s' = uninit_name s \<Longrightarrow> globalTls s' = globalTls s \<Longrightarrow>
   threadDataKey s' = threadDataKey s \<Longrightarrow> tls s' = tls s \<Longrightarrow>
   control_block h s' = control_block h s"
  by (simp add: control_block_def getThreadData_def getTlsStructFromThread_def
      sceKernelReferThreadStatus_def kcall_def pteTlsGetValue_def Let_def case_prod_beta
      split: option.splits)

lemma control_block_kcall [simp]: "control_block h (kcall e s) = control_block h s"
  by (rule control_block_cong) (simp_all add: kcall_def)

lemma cancel_count_kcall [simp]: "cancel_count (kcall e s) p = cancel_count s p"
  by (simp add: cancel_count_def kcall_def)

lemma ReferSemaStatus_eq:
  "sceKernelReferSemaStatus c s =
     (case semas s c of
        None \<Rightarrow> (SCE_KERNEL_ERROR_UNKNOWN_SEMID, \<lparr>currentCount = 0, maxCount = 0\<rparr>,
                 kcall (ReferSemaStatus c) s)
      | Some sm \<Rightarrow> (SCE_KERNEL_ERROR_OK, sm, kcall (ReferSemaStatus c) s))"
  by (simp add: sceKernelReferSemaStatus_def kcall_def Let_def split: option.splits)

lemma error_codes_not_OK:
  "SCE_KERNEL_ERROR_UNKNOWN_SEMID \<noteq> SCE_KERNEL_ERROR_OK"
  "SCE_KERNEL_ERROR_WAIT_TIMEOUT \<noteq> SCE_KERNEL_ERROR_OK"
  "SCE_KERNEL_ERROR_WAIT_DELETE \<noteq> SCE_KERNEL_ERROR_OK"
  "SCE_KERNEL_ERROR_SEMA_OVF \<noteq> SCE_KERNEL_ERROR_OK"
  "SCE_KERNEL_ERROR_UNKNOWN_SEMID \<noteq> SCE_KERNEL_ERROR_WAIT_TIMEOUT"
  "SCE_KERNEL_ERROR_WAIT_DELETE \<noteq> SCE_KERNEL_ERROR_WAIT_TIMEOUT"
  by (simp_all add: SCE_KERNEL_ERROR_UNKNOWN_SEMID_def SCE_KERNEL_ERROR_OK_def
      SCE_KERNEL_ERROR_WAIT_TIMEOUT_def SCE_KERNEL_ERROR_WAIT_DELETE_def SCE_KERNEL_ERROR_SEMA_OVF_def)

lemma CheckCancel_eq:
  "pte_osThreadCheckCancel h s =
     (if control_block h s = NULL then PTE_OS_GENERAL_FAILURE
      else case cancel_count s (control_block h s) of
             None \<Rightarrow> PTE_OS_GENERAL_FAILURE
           | Some c \<Rightarrow> if 0 < c then PTE_OS_INTERRUPTED else PTE_OS_OK,
      if control_block h s = NULL then kcall (ReferThreadStatus h) s
      else kcall (ReferSemaStatus (cancelSem (tdata s (control_block h s))))
             (kcall (ReferThreadStatus h) s))"
  by (simp add: pte_osThreadCheckCancel_def getThreadData_eq ReferSemaStatus_eq Let_def
      cancel_count_def kcall_def error_codes_not_OK split: option.splits)

lemma Cancel_eq:
  "pte_osThreadCancel h s =
     (if control_block h s = NULL then Inl NullDereference
      else Inr (let (osResult, s') =
                      sceKernelSignalSema (cancelSem (tdata s (control_block h s))) 1
                        (kcall (ReferThreadStatus h) s)
                in (if osResult = SCE_KERNEL_ERROR_OK then PTE_OS_OK
                    else PTE_OS_GENERAL_FAILURE, s')))"
  by (simp add: pte_osThreadCancel_def getThreadData_eq sceKernelSignalSema_def Let_def
      kcall_def error_codes_not_OK split: option.splits)

lemma MutexCreate_eq:
  "fst (pte_osMutexCreate s) = PTE_OS_OK \<and>
   fst (snd (pte_osMutexCreate s)) = next_uid (sema_uids s)"
  by (simp add: pte_osMutexCreate_def sceKernelCreateSema_def Let_def kcall_def next_uid_def
      split: list.splits)

lemma SemaphoreCreate_eq:
  "fst (pte_osSemaphoreCreate v s) = PTE_OS_OK \<and>
   fst (snd (pte_osSemaphoreCreate v s)) =
     (if v < 0 \<or> SEM_VALUE_MAX < v then SCE_KERNEL_ERROR_ILLEGAL_COUNT
      else next_uid (sema_uids s))"
  by (simp add: pte_osSemaphoreCreate_def sceKernelCreateSema_def Let_def kcall_def next_uid_def
      SEM_VALUE_MAX_def split: list.splits)

lemma CreateThread_answer:
  "fst (sceKernelCreateThread nm p st attr s) = next_uid (thread_uids s)"
  by (simp add: sceKernelCreateThread_def kcall_def Let_def next_uid_def split: list.splits)

lemma ThreadCreate_result:
  "fst (pte_osThreadCreate entry stack initialPriority arg s) =
     (if next_alloc (allocs s) = NULL \<or> next_alloc (tl (allocs s)) = NULL
      then PTE_OS_NO_RESOURCES
      else if next_uid (thread_uids s) = SCE_KERNEL_ERROR_NO_MEMORY then PTE_OS_NO_RESOURCES
      else if next_uid (thread_uids s) <s 0 then PTE_OS_GENERAL_FAILURE
      else PTE_OS_OK)"
proof (cases "allocs s")
  case Nil
  then show ?thesis
    by (simp add: pte_osThreadCreate_def pteTlsThreadInit_def malloc_def Let_def next_alloc_def)
next
  case (Cons pTls ps)
  note outer = Cons
  show ?thesis
  proof (cases "pTls = NULL")
    case True
    with outer show ?thesis
      by (simp add: pte_osThreadCreate_def pteTlsThreadInit_def malloc_def Let_def next_alloc_def)
  next
    case False
    note pTls = False
    show ?thesis
    proof (cases ps)
      case Nil
      with outer pTls show ?thesis
        by (simp add: pte_osThreadCreate_def pteTlsThreadInit_def malloc_def Let_def
            next_alloc_def)
    next
      case (Cons pd rest)
      with outer pTls show ?thesis
        by (simp add: pte_osThreadCreate_def pteTlsThreadInit_def malloc_def Let_def
            next_alloc_def case_prod_beta pteTlsSetValue_def CreateSema_frame
            CreateThread_answer)
    qed
  qed
qed

lemma MutexTimedLock_eq:
  "fst (pte_osMutexTimedLock env handle timeoutMsecs s) =
     (if fst (sceKernelWaitSema env handle 1 (timeoutMsecs * 1000) s) = SCE_KERNEL_ERROR_OK
      then PTE_OS_OK else PTE_OS_TIMEOUT)"
  using WaitSema_result [of env handle 1 "timeoutMsecs * 1000" s] OK_not_negative
  by (auto simp: pte_osMutexTimedLock_def Let_def case_prod_beta)

lemma Cancel_status:
  "map_sum id fst (pte_osThreadCancel h s) =
     (if control_block h s = NULL then Inl NullDereference
      else Inr (case semas s (cancelSem (tdata s (control_block h s))) of
                  None \<Rightarrow> PTE_OS_GENERAL_FAILURE
                | Some sm \<Rightarrow>
                    if maxCount sm < currentCount sm + 1 then PTE_OS_GENERAL_FAILURE
                    else PTE_OS_OK))"
  by (simp add: Cancel_eq sceKernelSignalSema_def Let_def kcall_def error_codes_not_OK
      split: option.splits)

lemma SemaphorePend_eq:
  "pte_osSemaphorePend env handle pTimeoutMsecs s =
     map_option
       (\<lambda>(k, s'). (if k = SCE_KERNEL_ERROR_OK then PTE_OS_OK
                   else if k = SCE_KERNEL_ERROR_WAIT_TIMEOUT then PTE_OS_TIMEOUT
                   else PTE_OS_GENERAL_FAILURE, s'))
       (case pTimeoutMsecs of
          None \<Rightarrow> sceKernelWaitSema_NULL env handle 1 s
        | Some msecs \<Rightarrow> Some (sceKernelWaitSema env handle 1 (msecs * 1000) s))"
  by (simp add: pte_osSemaphorePend_def split: option.splits)

lemma sscanf_parsed:
  "fst (sscanf_pthread str) = 2 \<longleftrightarrow> parsed_table str \<noteq> None"
  by (simp add: sscanf_pthread_def parsed_table_def split: scanned.splits)

lemma sscanf_ptr:
  "parsed_table str = Some ptr \<Longrightarrow> snd (snd (sscanf_pthread str)) = ptr"
  by (auto simp add: sscanf_pthread_def parsed_table_def split: scanned.splits)

subsection \<open>Facts about the polling loops\<close>

lemma kcall_fields [simp]:
  "semas (kcall e s) = semas s"
  "threads (kcall e s) = threads s"
  "current (kcall e s) = current s"
  "clock_us (kcall e s) = clock_us s + call_us s e"
  "call_us (kcall e s) = call_us s"
  "tdata (kcall e s) = tdata s"
  "tls (kcall e s) = tls s"
  "live (kcall e s) = live s"
  "globalTls (kcall e s) = globalTls s"
  "threadDataKey (kcall e s) = threadDataKey s"
  "uninit_name (kcall e s) = uninit_name s"
  "sema_uids (kcall e s) = sema_uids s"
  "thread_uids (kcall e s) = thread_uids s"
  "allocs (kcall e s) = allocs s"
  "trace (kcall e s) = trace s @ [e]"
  by (simp_all add: kcall_def)

lemma available_kcall [simp]: "available (kcall e s) h = available s h"
  by (simp add: available_def kcall_def)

lemma stopped_kcall [simp]: "stopped (kcall e s) h = stopped s h"
  by (simp add: stopped_def kcall_def)

lemma WaitSema_poll_fails:
  "\<not> available s h \<Longrightarrow>
   sceKernelWaitSema env h 1 0 s =
     (if semas s h = None then SCE_KERNEL_ERROR_UNKNOWN_SEMID else SCE_KERNEL_ERROR_WAIT_TIMEOUT,
      kcall (WaitSema h 1 (Some 0)) s)"
  by (simp add: sceKernelWaitSema_def available_def kcall_def Let_def split: option.splits)

lemma WaitSema_poll_succeeds:
  "semas s h = Some sm \<Longrightarrow> 1 \<le> currentCount sm \<Longrightarrow>
   sceKernelWaitSema env h 1 0 s =
     (SCE_KERNEL_ERROR_OK, take_units h sm 1 (kcall (WaitSema h 1 (Some 0)) s))"
  by (simp add: sceKernelWaitSema_def kcall_def Let_def)

lemma ReferThreadRunStatus_eq:
  "sceKernelReferThreadRunStatus th s =
     (case threads s th of
        None \<Rightarrow> (SCE_KERNEL_ERROR_UNKNOWN_THID, 0, kcall (ReferThreadRunStatus th) s)
      | Some t \<Rightarrow> (SCE_KERNEL_ERROR_OK, status t, kcall (ReferThreadRunStatus th) s))"
  by (simp add: sceKernelReferThreadRunStatus_def kcall_def Let_def split: option.splits)

lemma CancellablePend_round_result:
  "fst (CancellablePend_round env h en st tmo pd s) =
     (if available s h then Break PTE_OS_OK
      else if en \<and> clock (kcall (WaitSema h 1 (Some 0)) s) - st > tmo then Break PTE_OS_TIMEOUT
      else if pd = NULL then Repeat
      else case cancel_count s pd of
             None \<Rightarrow> Break PTE_OS_GENERAL_FAILURE
           | Some c \<Rightarrow> if 0 < c then Break PTE_OS_INTERRUPTED else Repeat)"
proof (cases "available s h")
  case True
  then obtain sm where "semas s h = Some sm" "1 \<le> currentCount sm"
    by (auto simp: available_def split: option.splits)
  with True show ?thesis
    by (simp add: CancellablePend_round_def WaitSema_poll_succeeds)
next
  case False
  then show ?thesis
    by (simp add: CancellablePend_round_def WaitSema_poll_fails ReferSemaStatus_eq Let_def
        error_codes_not_OK clock_def kcall_def cancel_count_def split: option.splits)
qed

lemma CancellablePend_round_trace:
  "trace (snd (CancellablePend_round env h en st tmo pd s)) =
     trace s @ WaitSema h 1 (Some 0) #
       (if available s h \<or> (en \<and> clock (kcall (WaitSema h 1 (Some 0)) s) - st > tmo) \<or> pd = NULL then []
        else ReferSemaStatus (cancelSem (tdata s pd)) #
               (case cancel_count s pd of
                  None \<Rightarrow> []
                | Some c \<Rightarrow> if 0 < c then [] else [DelayThread POLLING_DELAY_IN_us]))"
proof (cases "available s h")
  case True
  then obtain sm where "semas s h = Some sm" "1 \<le> currentCount sm"
    by (auto simp: available_def split: option.splits)
  with True show ?thesis
    by (simp add: CancellablePend_round_def WaitSema_poll_succeeds take_units_def kcall_def)
next
  case False
  then show ?thesis
    by (simp add: CancellablePend_round_def WaitSema_poll_fails ReferSemaStatus_eq Let_def
        error_codes_not_OK clock_def kcall_def cancel_count_def sceKernelDelayThread_def
        split: option.splits)
qed




lemma WaitForEnd_round_NULL:
  "WaitForEnd_round th NULL s =
     (if stopped s th then Break PTE_OS_OK else Repeat, kcall (ReferThreadRunStatus th) s)"
  by (simp add: WaitForEnd_round_def ReferThreadRunStatus_eq stopped_def PSP_THREAD_STOPPED_def
      split: option.splits)

lemma CancellablePend_round_NULL:
  "\<not> available s h \<Longrightarrow>
   CancellablePend_round env h en st tmo NULL s =
     (if en \<and> clock (kcall (WaitSema h 1 (Some 0)) s) - st > tmo then Break PTE_OS_TIMEOUT else Repeat,
      kcall (WaitSema h 1 (Some 0)) s)"
  by (simp add: CancellablePend_round_def WaitSema_poll_fails error_codes_not_OK clock_def
      kcall_def)



lemma WaitForEnd_loop_NULL:
  "WaitForEnd_loop env th NULL s =
     (if stopped s th then Some (PTE_OS_OK, kcall (ReferThreadRunStatus th) s)
      else WaitForEnd_loop env th NULL (env (kcall (ReferThreadRunStatus th) s)))"
  by (subst WaitForEnd_loop.simps) (simp add: WaitForEnd_round_NULL)

lemma WaitForEnd_loop_NULL_result:
  assumes "WaitForEnd_loop env th NULL s = Some y"
  shows "fst y = PTE_OS_OK"
proof -
  have "NULL = (0 :: addr) \<longrightarrow> fst y = PTE_OS_OK"
    by (rule WaitForEnd_loop.raw_induct
          [OF _ assms, where P = "\<lambda>env th pd s y. pd = NULL \<longrightarrow> fst y = PTE_OS_OK"])
       (auto simp: WaitForEnd_round_NULL split: if_splits)
  then show ?thesis
    by simp
qed

lemma WaitForEnd_loop_NULL_spins:
  assumes never: "\<And>s. \<not> stopped s th \<Longrightarrow> \<not> stopped (env s) th"
    and now: "\<not> stopped s th"
  shows "WaitForEnd_loop env th NULL s = None"
proof (rule ccontr)
  assume "WaitForEnd_loop env th NULL s \<noteq> None"
  then obtain y where y: "WaitForEnd_loop env th NULL s = Some y"
    by auto
  have "env = env \<and> th = th \<and> NULL = (0 :: addr) \<longrightarrow> stopped s th"
  proof (rule WaitForEnd_loop.raw_induct
          [OF _ y, where P = "\<lambda>env' th' pd s y. env' = env \<and> th' = th \<and> pd = NULL \<longrightarrow> stopped s th"],
         intro impI, elim conjE, rule ccontr)
    fix loop env' th' pd and s :: state and y
    assume IH: "\<And>env' th' pd s y. loop env' th' pd s = Some y \<Longrightarrow>
                  env' = env \<and> th' = th \<and> pd = NULL \<longrightarrow> stopped s th"
      and body: "(case WaitForEnd_round th' pd s of
                    (Break result, s1) \<Rightarrow> Some (result, s1)
                  | (Repeat, s1) \<Rightarrow> loop env' th' pd (env' s1)) = Some y"
      and eqs: "env' = env" "th' = th" "pd = NULL"
      and ns: "\<not> stopped s th"
    from body eqs ns
    have "loop env th NULL (env (kcall (ReferThreadRunStatus th) s)) = Some y"
      by (simp add: WaitForEnd_round_NULL)
    from IH [OF this] have "stopped (env (kcall (ReferThreadRunStatus th) s)) th"
      by simp
    moreover from ns have "\<not> stopped (env (kcall (ReferThreadRunStatus th) s)) th"
      by (intro never) simp
    ultimately show False
      by simp
  qed
  with now show False
    by simp
qed

lemma CancellablePend_loop_NULL:
  "\<not> available s h \<Longrightarrow>
   CancellablePend_loop env h en st tmo NULL s =
     (if en \<and> clock (kcall (WaitSema h 1 (Some 0)) s) - st > tmo then Some (PTE_OS_TIMEOUT, kcall (WaitSema h 1 (Some 0)) s)
      else CancellablePend_loop env h en st tmo NULL (env (kcall (WaitSema h 1 (Some 0)) s)))"
  by (subst CancellablePend_loop.simps) (simp add: CancellablePend_round_NULL)

lemma CancellablePend_loop_NULL_spins:
  assumes never: "\<And>s. \<not> available s h \<Longrightarrow> \<not> available (env s) h"
    and now: "\<not> available s h"
  shows "CancellablePend_loop env h False st tmo NULL s = None"
proof (rule ccontr)
  assume "CancellablePend_loop env h False st tmo NULL s \<noteq> None"
  then obtain y where y: "CancellablePend_loop env h False st tmo NULL s = Some y"
    by auto
  have "env = env \<and> h = h \<and> \<not> False \<and> NULL = (0 :: addr) \<longrightarrow> available s h"
  proof (rule CancellablePend_loop.raw_induct
          [OF _ y, where P = "\<lambda>env' h' en st tmo pd s y.
             env' = env \<and> h' = h \<and> \<not> en \<and> pd = NULL \<longrightarrow> available s h"],
         intro impI, elim conjE, rule ccontr)
    fix loop env' h' en st tmo pd and s :: state and y
    assume IH: "\<And>env' h' en st tmo pd s y. loop env' h' en st tmo pd s = Some y \<Longrightarrow>
                  env' = env \<and> h' = h \<and> \<not> en \<and> pd = NULL \<longrightarrow> available s h"
      and body: "(case CancellablePend_round env' h' en st tmo pd s of
                    (Break result, s1) \<Rightarrow> Some (result, s1)
                  | (Repeat, s1) \<Rightarrow> loop env' h' en st tmo pd (env' s1)) = Some y"
      and eqs: "env' = env" "h' = h" "\<not> en" "pd = NULL"
      and na: "\<not> available s h"
    from body eqs na
    have "loop env h en st tmo NULL (env (kcall (WaitSema h 1 (Some 0)) s)) = Some y"
      by (simp add: CancellablePend_round_NULL)
    from IH [OF this] eqs have "available (env (kcall (WaitSema h 1 (Some 0)) s)) h"
      by simp
    moreover from na have "\<not> available (env (kcall (WaitSema h 1 (Some 0)) s)) h"
      by (intro never) simp
    ultimately show False
      by simp
  qed
  with now show False
    by simp
qed

lemma WaitForEnd_eq_loop:
  "pte_osThreadWaitForEnd env th s =
     WaitForEnd_loop env th (control_block (current s) s)
       (kcall (ReferThreadStatus (current s)) (kcall GetThreadId s))"
  by (simp add: pte_osThreadWaitForEnd_def sceKernelGetThreadId_def getThreadData_eq)

lemma CancellablePend_eq_loop:
  "pte_osSemaphoreCancellablePend env h pTimeout s =
     CancellablePend_loop env h (pTimeout \<noteq> None)
       (clock (kcall (ReferThreadStatus (current s)) (kcall GetThreadId s)))
       (case pTimeout of None \<Rightarrow> 0 | Some msecs \<Rightarrow> msecs * 1000)
       (control_block (current s) s)
       (kcall (ReferThreadStatus (current s)) (kcall GetThreadId s))"
  by (simp add: pte_osSemaphoreCancellablePend_def sceKernelGetThreadId_def getThreadData_eq
      split: option.splits)

lemma cancel_pending_kcall [simp]: "cancel_pending h (kcall e s) = cancel_pending h s"
  by (simp add: cancel_pending_def)










lemma spin_state_Suc:
  "spin_state env th (Suc n) s = spin_state env th n (env (kcall (ReferThreadRunStatus th) s))"
  by (simp add: spin_state_def funpow_Suc_right del: funpow.simps)

lemma WaitForEnd_loop_NULL_until:
  "stopped (spin_state env th n s) th \<Longrightarrow>
   (\<And>m. m < n \<Longrightarrow> \<not> stopped (spin_state env th m s) th) \<Longrightarrow>
   WaitForEnd_loop env th NULL s =
     Some (PTE_OS_OK, kcall (ReferThreadRunStatus th) (spin_state env th n s))"
proof (induction n arbitrary: s)
  case 0
  then show ?case
    by (subst WaitForEnd_loop_NULL) (simp add: spin_state_def)
next
  case (Suc n)
  from Suc.prems(2) [of 0] have first: "\<not> stopped s th"
    by (simp add: spin_state_def)
  have "WaitForEnd_loop env th NULL (env (kcall (ReferThreadRunStatus th) s)) =
          Some (PTE_OS_OK, kcall (ReferThreadRunStatus th)
                  (spin_state env th n (env (kcall (ReferThreadRunStatus th) s))))"
  proof (rule Suc.IH)
    show "stopped (spin_state env th n (env (kcall (ReferThreadRunStatus th) s))) th"
      using Suc.prems(1) by (simp add: spin_state_Suc)
    show "\<not> stopped (spin_state env th m (env (kcall (ReferThreadRunStatus th) s))) th"
      if "m < n" for m
      using Suc.prems(2) [of "Suc m"] that by (simp add: spin_state_Suc)
  qed
  with first show ?case
    by (subst WaitForEnd_loop_NULL) (simp add: spin_state_Suc)
qed

subsection \<open>Atomic compare-and-exchange\<close>

text \<open>
  C7. For every location \<open>pdest\<close>, exchange value and comparand, \<open>pte_osAtomicCompareExchange\<close>
  returns the value the location held before the call; the location holds the exchange
  value afterwards exactly when that prior value equals the comparand and is unchanged
  otherwise; no other location changes; and the interrupt state after the call is the one
  before it.
\<close>

theorem AtomicCompareExchange_correct:
  "fst (pte_osAtomicCompareExchange pdest exchange comparand s) = ints s pdest \<and>
   ints (snd (pte_osAtomicCompareExchange pdest exchange comparand s)) =
     (if ints s pdest = comparand then (ints s)(pdest := exchange) else ints s) \<and>
   intr (snd (pte_osAtomicCompareExchange pdest exchange comparand s)) = intr s \<and>
   snd (pte_osAtomicCompareExchange pdest exchange comparand s) =
     s\<lparr>ints := ints (snd (pte_osAtomicCompareExchange pdest exchange comparand s))\<rparr>"
  by (simp add: pte_osAtomicCompareExchange_def pspSdkDisableInterrupts_def
      pspSdkEnableInterrupts_def Let_def)

subsection \<open>Initialization\<close>

text \<open>
  C10. The status of \<open>pte_osInit\<close> is decided by three steps only: the global
  initialisation of the slot tables, the allocation of the control-block key, and the heap
  allocation of the control block. A failing step gives its status (no resources, for the
  heap), and when all three succeed the result is \<open>PTE_OS_OK\<close>, whatever address
  (\<open>NULL\<close> included) the allocation of the ambient slot table returned and whatever
  the kernel answered to the creation of the cancellation semaphore.
\<close>

theorem Init_result:
  assumes "pteTlsGlobalInit PSP_MAX_TLS s = (r1, s1)"
    and "pteTlsAlloc s1 = (r2, key, s2)"
    and "pteTlsThreadInit (case key of None \<Rightarrow> s2 | Some k \<Rightarrow> s2\<lparr>threadDataKey := k\<rparr>) = (p, s4)"
    and "malloc (s4\<lparr>globalTls := p\<rparr>) = (pThreadData, s6)"
  shows "fst (pte_osInit s) =
           (if r1 \<noteq> PTE_OS_OK then r1
            else if r2 \<noteq> PTE_OS_OK then r2
            else if pThreadData = NULL then PTE_OS_NO_RESOURCES
            else PTE_OS_OK)"
  using assms
  by (simp add: pte_osInit_def Let_def split: prod.splits)

text \<open>
  In \<open>boot_starved\<close> the table allocation returns \<open>NULL\<close> and the kernel refuses the
  semaphore; \<open>pte_osInit\<close> returns \<open>PTE_OS_OK\<close> and leaves a \<open>NULL\<close> ambient table
  and the kernel's error code in the control block.
\<close>

theorem Init_result_witness:
  "fst (pte_osInit boot_starved) = PTE_OS_OK \<and>
   globalTls (snd (pte_osInit boot_starved)) = NULL \<and>
   cancelSem (tdata (snd (pte_osInit boot_starved)) 0x8810200) = SCE_KERNEL_ERROR_NO_MEMORY"
proof -
  define s1 where "s1 = snd (pteTlsGlobalInit PSP_MAX_TLS boot_starved)"
  define s2 where "s2 = snd (snd (pteTlsAlloc s1))"
  define s4 where "s4 = snd (pteTlsThreadInit (s2\<lparr>threadDataKey := 1\<rparr>))"
  define s6 where "s6 = snd (malloc (s4\<lparr>globalTls := NULL\<rparr>))"
  have g: "pteTlsGlobalInit PSP_MAX_TLS boot_starved = (PTE_OS_OK, s1)"
    unfolding s1_def by (rule prod_eqI) (code_simp, simp)
  have a: "pteTlsAlloc s1 = (PTE_OS_OK, Some 1, s2)"
    unfolding s1_def s2_def by (intro prod_eqI) (code_simp, code_simp, simp)
  have t: "pteTlsThreadInit (case Some 1 of None \<Rightarrow> s2 | Some k \<Rightarrow> s2\<lparr>threadDataKey := k\<rparr>) = (NULL, s4)"
    unfolding s1_def s2_def s4_def option.case by (intro prod_eqI) (code_simp, simp)
  have m: "malloc (s4\<lparr>globalTls := NULL\<rparr>) = (0x8810200, s6)"
    unfolding s1_def s2_def s4_def s6_def by (intro prod_eqI) (code_simp, simp)
  have "fst (pte_osInit boot_starved) = PTE_OS_OK"
    using Init_result [OF g a t m] by simp
  moreover have "globalTls (snd (pte_osInit boot_starved)) = NULL"
    by code_simp
  moreover have "cancelSem (tdata (snd (pte_osInit boot_starved)) 0x8810200) = SCE_KERNEL_ERROR_NO_MEMORY"
    by code_simp
  ultimately show ?thesis by simp
qed

subsection \<open>Thread creation that fails in the kernel\<close>

text \<open>
  C4. When both allocations of \<open>pte_osThreadCreate\<close> succeed (the slot table \<open>pTls\<close>
  and the control block \<open>pThreadData\<close>) and the kernel refuses to create the thread,
  answering the negative code \<open>threadId\<close>, then the result is \<open>PTE_OS_NO_RESOURCES\<close>
  when the code is \<open>SCE_KERNEL_ERROR_NO_MEMORY\<close> and \<open>PTE_OS_GENERAL_FAILURE\<close>
  otherwise, no handle is written, and both blocks have been released on return: the set
  of live blocks is the one before the call without them.
\<close>

theorem ThreadCreate_kernel_failure:
  assumes "allocs s = pTls # pThreadData # rest"
    and "pTls \<noteq> NULL" and "pThreadData \<noteq> NULL"
    and "next_uid (thread_uids s) = threadId" and "threadId <s 0"
  shows "case pte_osThreadCreate entry stack initialPriority arg s of
           (result, handle, s') \<Rightarrow>
             result = (if threadId = SCE_KERNEL_ERROR_NO_MEMORY then PTE_OS_NO_RESOURCES
                       else PTE_OS_GENERAL_FAILURE) \<and>
             handle = None \<and>
             pTls \<notin> live s' \<and> pThreadData \<notin> live s' \<and>
             live s' = live s - {pTls, pThreadData}"
  using assms
  by (auto simp add: pte_osThreadCreate_def Let_def case_prod_beta pteTlsThreadInit_ok malloc_ok
      pteTlsSetValue_def CreateSema_frame CreateThread_refused pteTlsThreadDestroy_def free_def)

theorem ThreadCreate_kernel_failure_witness:
  "case pte_osThreadCreate 0x8900000 8192 18 0 (ready\<lparr>thread_uids := []\<rparr>) of
     (result, handle, s') \<Rightarrow>
       result = PTE_OS_NO_RESOURCES \<and> handle = None \<and>
       0x8810300 \<notin> live s' \<and> 0x8810400 \<notin> live s' \<and> live s' = live ready"
proof -
  have a: "allocs (ready\<lparr>thread_uids := []\<rparr>) = 0x8810300 # 0x8810400 # [0x8810500]"
    by code_simp
  have l: "live ready - {0x8810300, 0x8810400} = live ready"
    by code_simp
  have n: "next_uid (thread_uids (ready\<lparr>thread_uids := []\<rparr>)) = SCE_KERNEL_ERROR_NO_MEMORY"
    by (simp add: next_uid_def)
  have neg: "SCE_KERNEL_ERROR_NO_MEMORY <s 0"
    by (simp add: SCE_KERNEL_ERROR_NO_MEMORY_def word_sless_alt)
  show ?thesis
    using ThreadCreate_kernel_failure [OF a _ _ n neg, where entry = "0x8900000" and stack = 8192 and initialPriority = 18 and arg = 0] l
    by (simp split: prod.splits)
qed

text \<open>
  C8. In the same situation, when the kernel had granted the cancellation semaphore \<open>u\<close>
  earlier in the call, the semaphore is still there on return, with the count 0 and the
  maximum 255 it was created with: the semaphores after the call are those before it plus
  \<open>u\<close>. The control block that held its identifier and the slot table are released, no
  handle is written, and the call made exactly two kernel calls, the two creations, and
  no deletion.
\<close>

theorem ThreadCreate_leaks_semaphore:
  assumes "allocs s = pTls # pThreadData # rest"
    and "pTls \<noteq> NULL" and "pThreadData \<noteq> NULL"
    and "sema_uids s = u # us" and "\<not> u <s 0"
    and "next_uid (thread_uids s) <s 0"
  shows "case pte_osThreadCreate entry stack initialPriority arg s of
           (result, handle, s') \<Rightarrow>
             handle = None \<and>
             semas s' = (semas s)(u \<mapsto> \<lparr>currentCount = 0, maxCount = 255\<rparr>) \<and>
             sema_uids s' = us \<and>
             pThreadData \<notin> live s' \<and> pTls \<notin> live s' \<and>
             trace s' = trace s @
               [CreateSema (snprintf 64 (''pthread_cancelSem'' @ printf_04d (threadNum s'))) 0 255,
                CreateThread
                  (snprintf 64 (''pthread'' @ printf_04d (threadNum s') @ ''__'' @ printf_x pTls))
                  initialPriority
                  (if stack < DEFAULT_STACK_SIZE_BYTES then DEFAULT_STACK_SIZE_BYTES else stack)]"
  using assms
  by (auto simp add: pte_osThreadCreate_def Let_def case_prod_beta pteTlsThreadInit_ok malloc_ok
      pteTlsSetValue_def CreateSema_frame CreateSema_granted CreateThread_refused
      pteTlsThreadDestroy_def free_def)

theorem ThreadCreate_leaks_semaphore_witness:
  "case pte_osThreadCreate 0x8900000 8192 18 0 (ready\<lparr>thread_uids := [0x80020193]\<rparr>) of
     (result, handle, s') \<Rightarrow>
       result = PTE_OS_GENERAL_FAILURE \<and> handle = None \<and>
       semas ready 0x102 = None \<and>
       semas s' 0x102 = Some \<lparr>currentCount = 0, maxCount = 255\<rparr> \<and>
       0x8810400 \<notin> live s' \<and> 0x8810300 \<notin> live s'"
proof -
  have a: "allocs (ready\<lparr>thread_uids := [0x80020193]\<rparr>) = 0x8810300 # 0x8810400 # [0x8810500]"
    by code_simp
  have u: "sema_uids (ready\<lparr>thread_uids := [0x80020193]\<rparr>) = 0x102 # [0x103, 0x104]"
    by code_simp
  have n: "next_uid (thread_uids (ready\<lparr>thread_uids := [0x80020193]\<rparr>)) <s 0"
    by (simp add: next_uid_def word_sless_alt)
  have r: "fst (pte_osThreadCreate 0x8900000 8192 18 0 (ready\<lparr>thread_uids := [0x80020193]\<rparr>))
             = PTE_OS_GENERAL_FAILURE"
    by code_simp
  have f: "semas ready 0x102 = None"
    by code_simp
  show ?thesis
    using ThreadCreate_leaks_semaphore [OF a _ _ u _ n, where entry = "0x8900000" and stack = 8192 and initialPriority = 18 and arg = 0] r f
    by (simp add: word_sless_alt split: prod.splits)
qed

text \<open>
  For comparison, the deletion of a thread does destroy its cancellation semaphore: in
  \<open>running\<close> the thread \<open>0x201\<close> has the semaphore \<open>0x102\<close>, the control block
  \<open>0x8810400\<close> and the slot table \<open>0x8810300\<close>.
\<close>

lemma ThreadDelete_example:
  "semas running 0x102 = Some \<lparr>currentCount = 0, maxCount = 255\<rparr>"
  "\<not> isl (pte_osThreadDelete 0x201 running)"
  "fst (projr (pte_osThreadDelete 0x201 running)) = PTE_OS_OK"
  "semas (snd (projr (pte_osThreadDelete 0x201 running))) 0x102 = None"
  "0x8810400 \<notin> live (snd (projr (pte_osThreadDelete 0x201 running)))"
  "0x8810300 \<notin> live (snd (projr (pte_osThreadDelete 0x201 running)))"
  "threads (snd (projr (pte_osThreadDelete 0x201 running))) 0x201 = None"
  by code_simp+

subsection \<open>Timed lock of a mutex\<close>

text \<open>
  C5. \<open>pte_osMutexTimedLock\<close> returns \<open>PTE_OS_OK\<close> when the kernel wait succeeded and
  \<open>PTE_OS_TIMEOUT\<close> for every other answer of the kernel (the C code tests for a negative
  answer, and every answer of the kernel that is not success is negative); it changes the
  state as the kernel wait does and nothing more; it never returns general failure,
  interrupted or no resources.
\<close>

theorem MutexTimedLock_status:
  "fst (pte_osMutexTimedLock env handle timeoutMsecs s) =
     (if fst (sceKernelWaitSema env handle 1 (timeoutMsecs * 1000) s) = SCE_KERNEL_ERROR_OK
      then PTE_OS_OK else PTE_OS_TIMEOUT) \<and>
   fst (pte_osMutexTimedLock env handle timeoutMsecs s) =
     (if fst (sceKernelWaitSema env handle 1 (timeoutMsecs * 1000) s) <s 0
      then PTE_OS_TIMEOUT else PTE_OS_OK) \<and>
   snd (pte_osMutexTimedLock env handle timeoutMsecs s) =
     snd (sceKernelWaitSema env handle 1 (timeoutMsecs * 1000) s) \<and>
   fst (pte_osMutexTimedLock env handle timeoutMsecs s) \<noteq> PTE_OS_GENERAL_FAILURE \<and>
   fst (pte_osMutexTimedLock env handle timeoutMsecs s) \<noteq> PTE_OS_INTERRUPTED \<and>
   fst (pte_osMutexTimedLock env handle timeoutMsecs s) \<noteq> PTE_OS_NO_RESOURCES"
  using WaitSema_result [of env handle 1 "timeoutMsecs * 1000" s] OK_not_negative
  by (auto simp: pte_osMutexTimedLock_def Let_def case_prod_beta)

subsection \<open>How failures are reported\<close>

text \<open>
  C3, as the code has it. The primitives do not share one mapping of failures to statuses;
  each of the following has its own.

  \<^item> \<open>pte_osMutexCreate\<close> and \<open>pte_osSemaphoreCreate\<close> do not look at the kernel's
    answer: they always return \<open>PTE_OS_OK\<close>, and the handle they write is that answer,
    which is an error code when the kernel refused.
  \<^item> \<open>pte_osThreadCreate\<close> reports a failed heap allocation as no resources, the
    kernel's out-of-memory answer to the creation of the thread as no resources, any other
    refusal to create the thread as a general failure, and OK otherwise. It does not look
    at the kernel's answer to the creation of the cancellation semaphore: the status is
    the same whatever that answer is.
  \<^item> \<open>pte_osSemaphorePend\<close> reports the kernel's success as OK, its timeout as a timeout
    and any other answer as a general failure.
  \<^item> \<open>pte_osMutexTimedLock\<close> reports the kernel's success as OK and every other answer
    as a timeout.
  \<^item> \<open>pte_osThreadCancel\<close>, for a thread that has a control block, reports a post that
    succeeded as OK and a post that failed as a general failure. For a thread without a
    control block it reads the signal through a null pointer and returns no status.
  \<^item> \<open>pte_osThreadCheckCancel\<close> reports a positive count of the cancellation signal as
    interrupted, a count that is not positive as OK, and a missing control block or a
    failed query as a general failure.
\<close>

theorem status_taxonomy:
  "fst (pte_osMutexCreate s) = PTE_OS_OK \<and>
   fst (snd (pte_osMutexCreate s)) = next_uid (sema_uids s) \<and>
   fst (pte_osSemaphoreCreate v s) = PTE_OS_OK \<and>
   fst (snd (pte_osSemaphoreCreate v s)) =
     (if v < 0 \<or> SEM_VALUE_MAX < v then SCE_KERNEL_ERROR_ILLEGAL_COUNT
      else next_uid (sema_uids s)) \<and>
   fst (pte_osThreadCreate entry stack initialPriority arg s) =
     (if next_alloc (allocs s) = NULL \<or> next_alloc (tl (allocs s)) = NULL
      then PTE_OS_NO_RESOURCES
      else if next_uid (thread_uids s) = SCE_KERNEL_ERROR_NO_MEMORY then PTE_OS_NO_RESOURCES
      else if next_uid (thread_uids s) <s 0 then PTE_OS_GENERAL_FAILURE
      else PTE_OS_OK) \<and>
   fst (pte_osThreadCreate entry stack initialPriority arg (s\<lparr>sema_uids := us\<rparr>)) =
     fst (pte_osThreadCreate entry stack initialPriority arg s) \<and>
   pte_osSemaphorePend env handle pTimeoutMsecs s =
     map_option
       (\<lambda>(k, s'). (if k = SCE_KERNEL_ERROR_OK then PTE_OS_OK
                   else if k = SCE_KERNEL_ERROR_WAIT_TIMEOUT then PTE_OS_TIMEOUT
                   else PTE_OS_GENERAL_FAILURE, s'))
       (case pTimeoutMsecs of
          None \<Rightarrow> sceKernelWaitSema_NULL env handle 1 s
        | Some msecs \<Rightarrow> Some (sceKernelWaitSema env handle 1 (msecs * 1000) s)) \<and>
   fst (pte_osMutexTimedLock env handle timeoutMsecs s) =
     (if fst (sceKernelWaitSema env handle 1 (timeoutMsecs * 1000) s) = SCE_KERNEL_ERROR_OK
      then PTE_OS_OK else PTE_OS_TIMEOUT) \<and>
   map_sum id fst (pte_osThreadCancel h s) =
     (if control_block h s = NULL then Inl NullDereference
      else Inr (case semas s (cancelSem (tdata s (control_block h s))) of
                  None \<Rightarrow> PTE_OS_GENERAL_FAILURE
                | Some sm \<Rightarrow>
                    if maxCount sm < currentCount sm + 1 then PTE_OS_GENERAL_FAILURE
                    else PTE_OS_OK)) \<and>
   fst (pte_osThreadCheckCancel h s) =
     (if control_block h s = NULL then PTE_OS_GENERAL_FAILURE
      else case cancel_count s (control_block h s) of
             None \<Rightarrow> PTE_OS_GENERAL_FAILURE
           | Some c \<Rightarrow> if 0 < c then PTE_OS_INTERRUPTED else PTE_OS_OK)"
proof (intro conjI)
  show "fst (pte_osThreadCreate entry stack initialPriority arg (s\<lparr>sema_uids := us\<rparr>)) =
     fst (pte_osThreadCreate entry stack initialPriority arg s)"
    by (simp add: ThreadCreate_result)
qed (simp_all only: MutexCreate_eq SemaphoreCreate_eq ThreadCreate_result SemaphorePend_eq
      MutexTimedLock_eq Cancel_status CheckCancel_eq fst_conv)

text \<open>
  C3 as the spec states it fails: with a kernel that refuses to create a semaphore,
  both creation functions return \<open>PTE_OS_OK\<close>, not \<open>PTE_OS_NO_RESOURCES\<close>; the handle
  is the error code and no semaphore exists afterwards.
\<close>

theorem Create_reports_OK_on_kernel_failure:
  "fst (pte_osMutexCreate (ready\<lparr>sema_uids := []\<rparr>)) = PTE_OS_OK \<and>
   fst (pte_osMutexCreate (ready\<lparr>sema_uids := []\<rparr>)) \<noteq> PTE_OS_NO_RESOURCES \<and>
   fst (snd (pte_osMutexCreate (ready\<lparr>sema_uids := []\<rparr>))) = SCE_KERNEL_ERROR_NO_MEMORY \<and>
   semas (snd (snd (pte_osMutexCreate (ready\<lparr>sema_uids := []\<rparr>)))) = semas ready \<and>
   fst (pte_osSemaphoreCreate 0 (ready\<lparr>sema_uids := []\<rparr>)) = PTE_OS_OK \<and>
   fst (pte_osSemaphoreCreate 0 (ready\<lparr>sema_uids := []\<rparr>)) \<noteq> PTE_OS_NO_RESOURCES \<and>
   fst (snd (pte_osSemaphoreCreate 0 (ready\<lparr>sema_uids := []\<rparr>))) = SCE_KERNEL_ERROR_NO_MEMORY \<and>
   semas (snd (snd (pte_osSemaphoreCreate 0 (ready\<lparr>sema_uids := []\<rparr>)))) = semas ready"
  by (simp add: pte_osMutexCreate_def pte_osSemaphoreCreate_def sceKernelCreateSema_def
      kcall_def Let_def SEM_VALUE_MAX_def)

subsection \<open>From a thread to its slot table\<close>

text \<open>
  C6. \<open>getTlsStructFromThread\<close> asks the kernel for the thread's name and scans it
  against the pattern. When both fields parse, the result is the address decoded from the
  name; in every other case it is the ambient table \<open>globalTls\<close>. Both fields parse
  exactly when \<open>sscanf\<close> reports two assignments, which is the test of the C code. The
  call changes nothing but the record of kernel calls. For an identifier the kernel does
  not know, the name scanned is what the uninitialised buffer held.
\<close>

theorem getTlsStructFromThread_resolves:
  "fst (getTlsStructFromThread thid s) =
     (case parsed_table (case threads s thid of None \<Rightarrow> uninit_name s | Some t \<Rightarrow> name t) of
        Some ptr \<Rightarrow> ptr
      | None \<Rightarrow> globalTls s) \<and>
   (parsed_table (case threads s thid of None \<Rightarrow> uninit_name s | Some t \<Rightarrow> name t) \<noteq> None) =
     (fst (sscanf_pthread (case threads s thid of None \<Rightarrow> uninit_name s | Some t \<Rightarrow> name t)) = 2) \<and>
   snd (getTlsStructFromThread thid s) = kcall (ReferThreadStatus thid) s"
  using sscanf_parsed [of "case threads s thid of None \<Rightarrow> uninit_name s | Some t \<Rightarrow> name t"]
    sscanf_ptr [of "case threads s thid of None \<Rightarrow> uninit_name s | Some t \<Rightarrow> name t"]
  by (auto simp add: getTlsStructFromThread_def sceKernelReferThreadStatus_def Let_def
      case_prod_beta kcall_def split: option.splits)

lemma getTlsStructFromThread_examples:
  "fst (getTlsStructFromThread 0x201 running) = 0x8810300"
  "fst (getTlsStructFromThread 1 running) = globalTls running"
  "parsed_table ''pthread0002__8810300'' = Some 0x8810300"
  "parsed_table ''user_main'' = None"
  "parsed_table ''pthread0002__'' = None"
  "parsed_table ''pthread__8810300'' = None"
  by code_simp+

subsection \<open>One round of the cancellable wait on a semaphore\<close>




subsection \<open>The cancellation signal is observed, not consumed\<close>




subsection \<open>A caller without a control block\<close>

text \<open>
  C9. When the lookup of the caller's control block gives \<open>NULL\<close>, a round of either loop
  makes one kernel call, the probe of its target, and either leaves on the target (or, for
  the timed wait, on the timeout) or repeats: it does not query the cancellation signal,
  has no failure exit and does not sleep. So a join by such a caller returns nothing but
  OK; it returns OK in the first round in which the target thread is seen stopped, having
  done nothing in the rounds before but ask for the run status; and it never returns when
  the target never stops. A cancellable wait without a timeout by such a caller, on a
  semaphore that never gets a unit, never returns.
\<close>

theorem no_control_block_spins:
  "WaitForEnd_round th NULL s =
     (if stopped s th then Break PTE_OS_OK else Repeat, kcall (ReferThreadRunStatus th) s) \<and>
   fst (CancellablePend_round env sem en st tmo NULL s) =
     (if available s sem then Break PTE_OS_OK
      else if en \<and> clock (kcall (WaitSema sem 1 (Some 0)) s) - st > tmo then Break PTE_OS_TIMEOUT
      else Repeat) \<and>
   trace (snd (CancellablePend_round env sem en st tmo NULL s)) =
     trace s @ [WaitSema sem 1 (Some 0)] \<and>
   (control_block (current s) s = NULL \<and> pte_osThreadWaitForEnd env th s = Some (r, s') \<longrightarrow>
      r = PTE_OS_OK) \<and>
   (control_block (current s) s = NULL \<longrightarrow>
      pte_osThreadWaitForEnd env th s =
        WaitForEnd_loop env th NULL (kcall (ReferThreadStatus (current s)) (kcall GetThreadId s))) \<and>
   (stopped (spin_state env th n s) th \<and> (\<forall>m < n. \<not> stopped (spin_state env th m s) th) \<longrightarrow>
      WaitForEnd_loop env th NULL s =
        Some (PTE_OS_OK, kcall (ReferThreadRunStatus th) (spin_state env th n s))) \<and>
   ((\<forall>s. \<not> stopped s th \<longrightarrow> \<not> stopped (env s) th) \<and> \<not> stopped s th \<longrightarrow>
      WaitForEnd_loop env th NULL s = None) \<and>
   ((\<forall>s. \<not> available s sem \<longrightarrow> \<not> available (env s) sem) \<and> \<not> available s sem \<longrightarrow>
      CancellablePend_loop env sem False st tmo NULL s = None) \<and>
   (control_block (current s) s = NULL \<and>
    (\<forall>s. \<not> available s sem \<longrightarrow> \<not> available (env s) sem) \<and> \<not> available s sem \<longrightarrow>
      pte_osSemaphoreCancellablePend env sem None s = None)"
proof (intro conjI impI; (elim conjE)?)
  show "WaitForEnd_round th NULL s =
     (if stopped s th then Break PTE_OS_OK else Repeat, kcall (ReferThreadRunStatus th) s)"
    by (rule WaitForEnd_round_NULL)
  show "fst (CancellablePend_round env sem en st tmo NULL s) =
     (if available s sem then Break PTE_OS_OK
      else if en \<and> clock (kcall (WaitSema sem 1 (Some 0)) s) - st > tmo then Break PTE_OS_TIMEOUT
      else Repeat)"
    by (simp add: CancellablePend_round_result)
  show "trace (snd (CancellablePend_round env sem en st tmo NULL s)) =
     trace s @ [WaitSema sem 1 (Some 0)]"
    by (simp add: CancellablePend_round_trace)
next
  assume "control_block (current s) s = NULL" "pte_osThreadWaitForEnd env th s = Some (r, s')"
  then show "r = PTE_OS_OK"
    using WaitForEnd_loop_NULL_result [of env th _ "(r, s')"] by (simp add: WaitForEnd_eq_loop)
next
  assume "control_block (current s) s = NULL"
  then show "pte_osThreadWaitForEnd env th s =
        WaitForEnd_loop env th NULL (kcall (ReferThreadStatus (current s)) (kcall GetThreadId s))"
    by (simp add: WaitForEnd_eq_loop)
next
  assume "stopped (spin_state env th n s) th" "\<forall>m < n. \<not> stopped (spin_state env th m s) th"
  then show "WaitForEnd_loop env th NULL s =
        Some (PTE_OS_OK, kcall (ReferThreadRunStatus th) (spin_state env th n s))"
    by (intro WaitForEnd_loop_NULL_until) simp_all
next
  assume "\<forall>s. \<not> stopped s th \<longrightarrow> \<not> stopped (env s) th" "\<not> stopped s th"
  then show "WaitForEnd_loop env th NULL s = None"
    by (intro WaitForEnd_loop_NULL_spins) simp_all
next
  assume "\<forall>s. \<not> available s sem \<longrightarrow> \<not> available (env s) sem" "\<not> available s sem"
  then show "CancellablePend_loop env sem False st tmo NULL s = None"
    by (intro CancellablePend_loop_NULL_spins) simp_all
next
  assume "control_block (current s) s = NULL"
    "\<forall>s. \<not> available s sem \<longrightarrow> \<not> available (env s) sem" "\<not> available s sem"
  then show "pte_osSemaphoreCancellablePend env sem None s = None"
    by (simp add: CancellablePend_eq_loop CancellablePend_loop_NULL_spins)
qed

text \<open>
  In \<open>ambient_lost\<close> the main thread has no control block. With nothing else happening,
  its untimed wait on the empty semaphore \<open>0x102\<close> and its join of a thread that never
  stops do not return; when the thread \<open>0x201\<close> ends while the caller spins, the join
  returns OK.
\<close>

theorem no_control_block_spins_witness:
  "control_block (current ambient_lost) ambient_lost = NULL \<and>
   \<not> available ambient_lost 0x102 \<and>
   pte_osSemaphoreCancellablePend (\<lambda>s. s) 0x102 None ambient_lost = None \<and>
   \<not> stopped ambient_lost 0x201 \<and>
   WaitForEnd_loop (\<lambda>s. s) 0x201 NULL ambient_lost = None \<and>
   map_option fst
     (WaitForEnd_loop
        (\<lambda>s. s\<lparr>threads := (threads s)(0x201 \<mapsto>
                 \<lparr>name = ''pthread0002__8810300'', status = 16, priority = 18, stackSize = 8192\<rparr>)\<rparr>)
        0x201 NULL ambient_lost) = Some PTE_OS_OK"
proof -
  let ?ends = "\<lambda>s. s\<lparr>threads := (threads s)(0x201 \<mapsto>
                 \<lparr>name = ''pthread0002__8810300'', status = 16, priority = 18, stackSize = 8192\<rparr>)\<rparr>"
  have cb: "control_block (current ambient_lost) ambient_lost = NULL"
    and na: "\<not> available ambient_lost 0x102"
    and ns: "\<not> stopped ambient_lost 0x201"
    by code_simp+
  have later: "stopped (spin_state ?ends 0x201 1 ambient_lost) 0x201"
    by (simp add: spin_state_def stopped_def PSP_THREAD_STOPPED_def)
  have before: "\<forall>m < 1. \<not> stopped (spin_state ?ends 0x201 m ambient_lost) 0x201"
    using ns by (simp add: spin_state_def)
  have "WaitForEnd_loop ?ends 0x201 NULL ambient_lost =
          Some (PTE_OS_OK, kcall (ReferThreadRunStatus 0x201) (spin_state ?ends 0x201 1 ambient_lost))"
    using no_control_block_spins
      [where s = ambient_lost and env = ?ends and th = "0x201" and n = 1] later before
    by blast
  then have joined: "map_option fst (WaitForEnd_loop ?ends 0x201 NULL ambient_lost) = Some PTE_OS_OK"
    by simp
  have "pte_osSemaphoreCancellablePend (\<lambda>s. s) 0x102 None ambient_lost = None \<and>
        WaitForEnd_loop (\<lambda>s. s) 0x201 NULL ambient_lost = None"
    using no_control_block_spins
      [where s = ambient_lost and env = "\<lambda>s. s" and sem = "0x102" and th = "0x201"] cb na ns
    by simp
  with cb na ns joined show ?thesis
    by simp
qed

end
